theory Spec2Isabelle
  imports Main "HOL-Library.Sublist"
begin

section \<open>JavaScript values\<close>

text \<open>
  The adapters read the records the platforms return through the type any: every field
  access, method call and truthiness test is decided at run time. A remote record is
  therefore a JSON value, where \<open>Undefined\<close> is what reading an absent property gives.
  Numbers are the integers (identifiers and counters; fractions, NaN and magnitudes
  from 2^53 on are outside the model). An object is the list of its own properties,
  looked up by the first entry of a key.

  Strings are lists of UTF-16 code units below 256, that is Latin-1 text: on these the
  functions below are what String.prototype computes.
\<close>

datatype json =
    Undefined
  | Null
  | Bool bool
  | Num int
  | Str string
  | Arr "json list"
  | Obj "(string \<times> json) list"

text \<open>
  A lookup in an object literal with a computed key can also find a member the literal
  inherits from Object.prototype (\<open>ProtoMember\<close>, a function or, for the key __proto__,
  Object.prototype itself). Such a value never occurs inside a remote record.
\<close>

datatype jsval = Val json | ProtoMember string

text \<open>
  What an operation throws: a TypeError of the run time (a property read on undefined or
  null, a call of something that is no function), an Error the code constructs with a
  message, or the rejection of a call by the platform's SDK or HTTP client.
\<close>

datatype error = TypeError | Error string | TransportFailure string

definition bind_err :: "error + 'a \<Rightarrow> ('a \<Rightarrow> error + 'b) \<Rightarrow> error + 'b" where
  "bind_err m f = (case m of Inl e \<Rightarrow> Inl e | Inr x \<Rightarrow> f x)"

fun collect :: "(error + 'a) list \<Rightarrow> error + 'a list" where
  "collect [] = Inr []"
| "collect (r # rs) = bind_err r (\<lambda>x. bind_err (collect rs) (\<lambda>xs. Inr (x # xs)))"

subsection \<open>Strings\<close>

definition upper_chars :: string where
  "upper_chars = ''ABCDEFGHIJKLMNOPQRSTUVWXYZ'' @
     [CHR 0xC0, CHR 0xC1, CHR 0xC2, CHR 0xC3, CHR 0xC4, CHR 0xC5, CHR 0xC6, CHR 0xC7,
      CHR 0xC8, CHR 0xC9, CHR 0xCA, CHR 0xCB, CHR 0xCC, CHR 0xCD, CHR 0xCE, CHR 0xCF,
      CHR 0xD0, CHR 0xD1, CHR 0xD2, CHR 0xD3, CHR 0xD4, CHR 0xD5, CHR 0xD6,
      CHR 0xD8, CHR 0xD9, CHR 0xDA, CHR 0xDB, CHR 0xDC, CHR 0xDD, CHR 0xDE]"

definition lower_chars :: string where
  "lower_chars = ''abcdefghijklmnopqrstuvwxyz'' @
     [CHR 0xE0, CHR 0xE1, CHR 0xE2, CHR 0xE3, CHR 0xE4, CHR 0xE5, CHR 0xE6, CHR 0xE7,
      CHR 0xE8, CHR 0xE9, CHR 0xEA, CHR 0xEB, CHR 0xEC, CHR 0xED, CHR 0xEE, CHR 0xEF,
      CHR 0xF0, CHR 0xF1, CHR 0xF2, CHR 0xF3, CHR 0xF4, CHR 0xF5, CHR 0xF6,
      CHR 0xF8, CHR 0xF9, CHR 0xFA, CHR 0xFB, CHR 0xFC, CHR 0xFD, CHR 0xFE]"

definition lower_char :: "char \<Rightarrow> char" where
  "lower_char c = (case map_of (zip upper_chars lower_chars) c of Some l \<Rightarrow> l | None \<Rightarrow> c)"

text \<open>String.prototype.toLowerCase: A to Z and the Latin-1 capitals move to their small
  letters, every other code unit stays.\<close>

definition toLowerCase :: "string \<Rightarrow> string" where
  "toLowerCase s = map lower_char s"

text \<open>String.prototype.includes: the needle occurs at some position of the string.\<close>

fun js_includes :: "string \<Rightarrow> string \<Rightarrow> bool" where
  "js_includes [] needle = (needle = [])"
| "js_includes (c # cs) needle = (prefix needle (c # cs) \<or> js_includes cs needle)"

text \<open>String.prototype.trim removes white space and line terminators from both ends.\<close>

definition js_space :: "char \<Rightarrow> bool" where
  "js_space c = (c \<in> set [CHR 0x09, CHR 0x0A, CHR 0x0B, CHR 0x0C, CHR 0x0D, CHR '' '', CHR 0xA0])"

definition trim :: "string \<Rightarrow> string" where
  "trim s = rev (dropWhile js_space (rev (dropWhile js_space s)))"

text \<open>The dot of a regular expression matches every code unit but a line terminator.\<close>

definition line_terminator :: "char \<Rightarrow> bool" where
  "line_terminator c = (c = CHR 0x0A \<or> c = CHR 0x0D)"

text \<open>
  \<open>match_label label text\<close> is the first capture group of text.match(/label(.+)$/m) for a
  label of literal characters, \<open>None\<close> when there is no match. The search goes through
  the start positions from the left; at a position the label must stand literally, and
  the greedy group takes every code unit up to the next line terminator or the end, where
  the multi-line dollar matches; the group needs one code unit at least.
\<close>

fun match_label :: "string \<Rightarrow> string \<Rightarrow> string option" where
  "match_label label [] = None"
| "match_label label (c # cs) =
     (let capture = takeWhile (\<lambda>x. \<not> line_terminator x) (drop (length label) (c # cs)) in
      if prefix label (c # cs) \<and> capture \<noteq> [] then Some capture
      else match_label label cs)"

fun join_with :: "string \<Rightarrow> string list \<Rightarrow> string" where
  "join_with sep [] = []"
| "join_with sep [s] = s"
| "join_with sep (s # t # ss) = s @ sep @ join_with sep (t # ss)"

text \<open>Number.prototype.toString for an integer.\<close>

fun show_nat :: "nat \<Rightarrow> string" where
  "show_nat n =
     (if n < 10 then [''0123456789'' ! n]
      else show_nat (n div 10) @ [''0123456789'' ! (n mod 10)])"

definition show_int :: "int \<Rightarrow> string" where
  "show_int i = (if i < 0 then CHR ''-'' # show_nat (nat (- i)) else show_nat (nat i))"

subsection \<open>Operations on values\<close>

text \<open>The truthiness of a value, as the operators ||, ?: and if test it.\<close>

fun truthy :: "json \<Rightarrow> bool" where
  "truthy Undefined = False"
| "truthy Null = False"
| "truthy (Bool b) = b"
| "truthy (Num n) = (n \<noteq> 0)"
| "truthy (Str s) = (s \<noteq> [])"
| "truthy (Arr xs) = True"
| "truthy (Obj ps) = True"

fun truthy_val :: "jsval \<Rightarrow> bool" where
  "truthy_val (Val v) = truthy v"
| "truthy_val (ProtoMember k) = True"

text \<open>The names every object literal inherits from Object.prototype.\<close>

definition object_prototype_members :: "string list" where
  "object_prototype_members =
     [''constructor'', ''__defineGetter__'', ''__defineSetter__'', ''hasOwnProperty'',
      ''__lookupGetter__'', ''__lookupSetter__'', ''isPrototypeOf'', ''propertyIsEnumerable'',
      ''toString'', ''valueOf'', ''__proto__'', ''toLocaleString'']"

text \<open>
  \<open>get_prop v k\<close> is the read v.k of a property the adapters name in their code. Reading
  from undefined or null throws; an object gives its own property or undefined; strings,
  numbers, booleans and arrays have none of the properties the adapters read (none of
  those names is inherited from a prototype either), so they give undefined.
\<close>

fun get_prop :: "json \<Rightarrow> string \<Rightarrow> error + json" where
  "get_prop Undefined k = Inl TypeError"
| "get_prop Null k = Inl TypeError"
| "get_prop (Obj ps) k = Inr (case map_of ps k of Some v \<Rightarrow> v | None \<Rightarrow> Undefined)"
| "get_prop v k = Inr Undefined"

text \<open>
  The operator in, for the keys the code tests: an own or inherited property of an
  object; an array has none of them; any other right operand throws.
\<close>

fun js_in :: "string \<Rightarrow> json \<Rightarrow> error + bool" where
  "js_in k (Obj ps) = Inr (map_of ps k \<noteq> None \<or> k \<in> set object_prototype_members)"
| "js_in k (Arr xs) = Inr False"
| "js_in k v = Inl TypeError"

text \<open>
  The conversion of a value to a string, as a template literal and a computed property
  key perform it. An object of a record converts through the toString it inherits; an own
  property of that name is no function, and the conversion throws. An array joins the
  conversions of its elements with commas, null and undefined as the empty string.
\<close>

fun to_string :: "json \<Rightarrow> error + string" where
  "to_string Undefined = Inr ''undefined''"
| "to_string Null = Inr ''null''"
| "to_string (Bool b) = Inr (if b then ''true'' else ''false'')"
| "to_string (Num n) = Inr (show_int n)"
| "to_string (Str s) = Inr s"
| "to_string (Arr xs) =
     bind_err
       (collect (map (\<lambda>x. if x = Undefined \<or> x = Null then Inr [] else to_string x) xs))
       (\<lambda>ss. Inr (join_with '','' ss))"
| "to_string (Obj ps) =
     (if map_of ps ''toString'' \<noteq> None then Inl TypeError else Inr ''[object Object]'')"

text \<open>The conversion of a looked-up member: a native function prints its name.\<close>

fun val_to_string :: "jsval \<Rightarrow> error + string" where
  "val_to_string (Val v) = to_string v"
| "val_to_string (ProtoMember k) =
     Inr (if k = ''__proto__'' then ''[object Object]''
          else ''function '' @ (if k = ''constructor'' then ''Object'' else k) @
               ''() { [native code] }'')"

text \<open>The method calls v.toString() and v.toLowerCase().\<close>

fun call_toString :: "json \<Rightarrow> error + string" where
  "call_toString Undefined = Inl TypeError"
| "call_toString Null = Inl TypeError"
| "call_toString v = to_string v"

fun call_toLowerCase :: "json \<Rightarrow> error + string" where
  "call_toLowerCase (Str s) = Inr (toLowerCase s)"
| "call_toLowerCase v = Inl TypeError"

text \<open>
  \<open>literal_get m k\<close> is m[k] for an object literal m whose values are strings and a key
  computed at run time: an own property, else the member inherited under that name, else
  undefined.
\<close>

definition literal_get :: "(string \<times> string) list \<Rightarrow> string \<Rightarrow> jsval" where
  "literal_get m k =
     (case map_of m k of
        Some v \<Rightarrow> Val (Str v)
      | None \<Rightarrow> if k \<in> set object_prototype_members then ProtoMember k else Val Undefined)"

section \<open>Status tables\<close>

subsection \<open>ServiceNow\<close>

definition normalizeStatus_stateMap :: "(string \<times> string) list" where
  "normalizeStatus_stateMap =
     [(''1'', ''new''), (''2'', ''in_progress''), (''3'', ''on_hold''),
      (''6'', ''resolved''), (''7'', ''closed''), (''-5'', ''pending'')]"

text \<open>ServiceNowClient.normalizeStatus: stateMap[status] || status.\<close>

definition ServiceNowClient_normalizeStatus :: "json \<Rightarrow> error + jsval" where
  "ServiceNowClient_normalizeStatus status =
     bind_err (to_string status) (\<lambda>key.
       let found = literal_get normalizeStatus_stateMap key in
       Inr (if truthy_val found then found else Val status))"

definition mapStatusToServiceNow_stateMap :: "(string \<times> string) list" where
  "mapStatusToServiceNow_stateMap =
     [(''new'', ''1''), (''in_progress'', ''2''), (''on_hold'', ''3''),
      (''resolved'', ''6''), (''closed'', ''7''), (''pending'', ''-5'')]"

text \<open>ServiceNowClient.mapStatusToServiceNow: stateMap[status.toLowerCase()] || "1". The
  status is the caller's filter, a string by its type.\<close>

definition ServiceNowClient_mapStatusToServiceNow :: "string \<Rightarrow> jsval" where
  "ServiceNowClient_mapStatusToServiceNow status =
     (let found = literal_get mapStatusToServiceNow_stateMap (toLowerCase status) in
      if truthy_val found then found else Val (Str ''1''))"

text \<open>ServiceNowClient.mapServiceNowStateToPRState: a switch, which compares with ===.\<close>

definition ServiceNowClient_mapServiceNowStateToPRState :: "json \<Rightarrow> string" where
  "ServiceNowClient_mapServiceNowStateToPRState state =
     (if state = Str ''3'' \<or> state = Str ''1'' \<or> state = Str ''2'' \<or> state = Str ''-5''
      then ''open''
      else if state = Str ''6'' then ''merged''
      else if state = Str ''7'' then ''closed''
      else ''open'')"

subsection \<open>Jira\<close>

text \<open>JiraClient.mapJiraStatusToPRState.\<close>

definition JiraClient_mapJiraStatusToPRState :: "json \<Rightarrow> error + string" where
  "JiraClient_mapJiraStatusToPRState status =
     bind_err (call_toLowerCase status) (\<lambda>lowerStatus.
       if js_includes lowerStatus ''done'' \<or> js_includes lowerStatus ''merged''
       then Inr ''merged''
       else if js_includes lowerStatus ''closed'' \<or> js_includes lowerStatus ''rejected''
       then Inr ''closed''
       else Inr ''open'')"

subsection \<open>GitLab\<close>

text \<open>GitLabClient.mapStatus: the caller's optional filter to the state parameter of the
  issue list, \<open>None\<close> for undefined.\<close>

definition GitLabClient_mapStatus :: "string option \<Rightarrow> string option" where
  "GitLabClient_mapStatus status =
     (case status of
        None \<Rightarrow> None
      | Some s \<Rightarrow>
          if s = [] then None
          else if toLowerCase s = ''open'' then Some ''opened''
          else if toLowerCase s = ''closed'' then Some ''closed''
          else None)"

text \<open>GitLabClient.normalizeStatus.\<close>

definition GitLabClient_normalizeStatus :: "json \<Rightarrow> error + json" where
  "GitLabClient_normalizeStatus status =
     bind_err (call_toLowerCase status) (\<lambda>lower.
       if lower = ''opened'' then Inr (Str ''open'') else Inr status)"

section \<open>The shared ticket model\<close>

text \<open>
  BaseTicket, StandardIssue and StandardPullRequest of types/tickets.d.ts. The declared
  field types are erased at run time, so a field holds whatever value the adapter put
  there; the status alone can also hold an inherited member, since ServiceNow computes it
  by a table lookup. The type tag is the constructor.
\<close>

record person =
  person_id :: json
  person_name :: json

record base_ticket =
  ticket_id :: json
  title :: json
  description :: json
  createdAt :: json
  updatedAt :: json
  status :: jsval
  author :: person
  assignee :: "person option"

datatype ticket =
    StandardIssue base_ticket
  | StandardPullRequest base_ticket json json json

text \<open>The fields of a ticket; an issue has no sourceBranch, targetBranch or state.\<close>

fun base :: "ticket \<Rightarrow> base_ticket" where
  "base (StandardIssue b) = b"
| "base (StandardPullRequest b src tgt st) = b"

fun sourceBranch :: "ticket \<Rightarrow> json option" where
  "sourceBranch (StandardIssue b) = None"
| "sourceBranch (StandardPullRequest b src tgt st) = Some src"

fun targetBranch :: "ticket \<Rightarrow> json option" where
  "targetBranch (StandardIssue b) = None"
| "targetBranch (StandardPullRequest b src tgt st) = Some tgt"


record ticket_comment =
  comment_id :: json
  content :: json
  comment_author :: person
  comment_createdAt :: json

text \<open>The operator || on values, and description.match(/label(.+)$/m)?.[1] || "unknown":
  calling match on anything but a string throws.\<close>

definition js_or :: "json \<Rightarrow> json \<Rightarrow> json" where
  "js_or a b = (if truthy a then a else b)"

fun branch_from :: "string \<Rightarrow> json \<Rightarrow> error + json" where
  "branch_from label (Str text) =
     Inr (case match_label label text of Some capture \<Rightarrow> Str capture | None \<Rightarrow> Str ''unknown'')"
| "branch_from label v = Inl TypeError"

section \<open>Normalisation\<close>

text \<open>
  Each function follows its normalizeTicket in evaluation order: the fields of base, then
  the classification, then the fields of the review request.
\<close>

subsection \<open>GitHub\<close>

definition GitHubClient_normalizeTicket :: "json \<Rightarrow> error + ticket" where
  "GitHubClient_normalizeTicket platformTicket =
     bind_err (get_prop platformTicket ''number'') (\<lambda>number.
     bind_err (call_toString number) (\<lambda>id_text.
     bind_err (get_prop platformTicket ''title'') (\<lambda>title_v.
     bind_err (get_prop platformTicket ''body'') (\<lambda>body.
     bind_err (get_prop platformTicket ''created_at'') (\<lambda>created_at.
     bind_err (get_prop platformTicket ''updated_at'') (\<lambda>updated_at.
     bind_err (get_prop platformTicket ''state'') (\<lambda>state_v.
     bind_err (get_prop platformTicket ''user'') (\<lambda>user.
     bind_err (get_prop user ''id'') (\<lambda>user_id.
     bind_err (call_toString user_id) (\<lambda>user_id_text.
     bind_err (get_prop user ''login'') (\<lambda>login.
     bind_err (get_prop platformTicket ''assignee'') (\<lambda>assignee_v.
     bind_err
       (if truthy assignee_v
        then bind_err (get_prop assignee_v ''id'') (\<lambda>a_id.
             bind_err (call_toString a_id) (\<lambda>a_id_text.
             bind_err (get_prop assignee_v ''login'') (\<lambda>a_login.
             Inr (Some \<lparr>person_id = Str a_id_text, person_name = a_login\<rparr>))))
        else Inr None) (\<lambda>assignee_p.
     let b = \<lparr>ticket_id = Str id_text, title = title_v, description = js_or body (Str []),
               createdAt = created_at, updatedAt = updated_at, status = Val state_v,
               author = \<lparr>person_id = Str user_id_text, person_name = login\<rparr>,
               assignee = assignee_p\<rparr> in
     bind_err (js_in ''pull_request'' platformTicket) (\<lambda>is_pr.
       if is_pr
       then bind_err (get_prop platformTicket ''head'') (\<lambda>head.
            bind_err (get_prop head ''ref'') (\<lambda>head_ref.
            bind_err (get_prop platformTicket ''base'') (\<lambda>base_v.
            bind_err (get_prop base_v ''ref'') (\<lambda>base_ref.
            bind_err (get_prop platformTicket ''state'') (\<lambda>pr_state_v.
            Inr (StandardPullRequest b head_ref base_ref pr_state_v))))))
       else Inr (StandardIssue b)))))))))))))))"

definition GitHubClient_normalizeComment :: "json \<Rightarrow> error + ticket_comment" where
  "GitHubClient_normalizeComment platformComment =
     bind_err (get_prop platformComment ''id'') (\<lambda>id_v.
     bind_err (call_toString id_v) (\<lambda>id_text.
     bind_err (get_prop platformComment ''body'') (\<lambda>body.
     bind_err (get_prop platformComment ''user'') (\<lambda>user.
     bind_err (get_prop user ''id'') (\<lambda>user_id.
     bind_err (call_toString user_id) (\<lambda>user_id_text.
     bind_err (get_prop user ''login'') (\<lambda>login.
     bind_err (get_prop platformComment ''created_at'') (\<lambda>created_at.
     Inr \<lparr>comment_id = Str id_text, content = body,
          comment_author = \<lparr>person_id = Str user_id_text, person_name = login\<rparr>,
          comment_createdAt = created_at\<rparr>))))))))"

subsection \<open>GitLab\<close>

definition GitLabClient_normalizeTicket :: "json \<Rightarrow> error + ticket" where
  "GitLabClient_normalizeTicket platformTicket =
     bind_err (get_prop platformTicket ''iid'') (\<lambda>iid.
     bind_err (call_toString iid) (\<lambda>id_text.
     bind_err (get_prop platformTicket ''title'') (\<lambda>title_v.
     bind_err (get_prop platformTicket ''description'') (\<lambda>description_v.
     bind_err (get_prop platformTicket ''created_at'') (\<lambda>created_at.
     bind_err (get_prop platformTicket ''updated_at'') (\<lambda>updated_at.
     bind_err (get_prop platformTicket ''state'') (\<lambda>state_v.
     bind_err (GitLabClient_normalizeStatus state_v) (\<lambda>status_v.
     bind_err (get_prop platformTicket ''author'') (\<lambda>author_v.
     bind_err (get_prop author_v ''id'') (\<lambda>author_id.
     bind_err (call_toString author_id) (\<lambda>author_id_text.
     bind_err (get_prop author_v ''username'') (\<lambda>username.
     bind_err (get_prop platformTicket ''assignee'') (\<lambda>assignee_v.
     bind_err
       (if truthy assignee_v
        then bind_err (get_prop assignee_v ''id'') (\<lambda>a_id.
             bind_err (call_toString a_id) (\<lambda>a_id_text.
             bind_err (get_prop assignee_v ''username'') (\<lambda>a_username.
             Inr (Some \<lparr>person_id = Str a_id_text, person_name = a_username\<rparr>))))
        else Inr None) (\<lambda>assignee_p.
     let b = \<lparr>ticket_id = Str id_text, title = title_v,
               description = js_or description_v (Str []),
               createdAt = created_at, updatedAt = updated_at, status = Val status_v,
               author = \<lparr>person_id = Str author_id_text, person_name = username\<rparr>,
               assignee = assignee_p\<rparr> in
     bind_err (js_in ''source_branch'' platformTicket) (\<lambda>is_mr.
       if is_mr
       then bind_err (get_prop platformTicket ''source_branch'') (\<lambda>source_branch.
            bind_err (get_prop platformTicket ''target_branch'') (\<lambda>target_branch.
            bind_err (get_prop platformTicket ''state'') (\<lambda>mr_state.
            Inr (StandardPullRequest b source_branch target_branch mr_state))))
       else Inr (StandardIssue b))))))))))))))))"

definition GitLabClient_normalizeComment :: "json \<Rightarrow> error + ticket_comment" where
  "GitLabClient_normalizeComment platformComment =
     bind_err (get_prop platformComment ''id'') (\<lambda>id_v.
     bind_err (call_toString id_v) (\<lambda>id_text.
     bind_err (get_prop platformComment ''body'') (\<lambda>body.
     bind_err (get_prop platformComment ''author'') (\<lambda>author_v.
     bind_err (get_prop author_v ''id'') (\<lambda>author_id.
     bind_err (call_toString author_id) (\<lambda>author_id_text.
     bind_err (get_prop author_v ''username'') (\<lambda>username.
     bind_err (get_prop platformComment ''created_at'') (\<lambda>created_at.
     Inr \<lparr>comment_id = Str id_text, content = body,
          comment_author = \<lparr>person_id = Str author_id_text, person_name = username\<rparr>,
          comment_createdAt = created_at\<rparr>))))))))"

subsection \<open>Jira\<close>

definition JiraClient_normalizeTicket :: "json \<Rightarrow> error + ticket" where
  "JiraClient_normalizeTicket platformTicket =
     bind_err (get_prop platformTicket ''key'') (\<lambda>key.
     bind_err (get_prop platformTicket ''fields'') (\<lambda>fields.
     bind_err (get_prop fields ''summary'') (\<lambda>summary.
     bind_err (get_prop fields ''description'') (\<lambda>description_v.
     bind_err (get_prop fields ''created'') (\<lambda>created.
     bind_err (get_prop fields ''updated'') (\<lambda>updated.
     bind_err (get_prop fields ''status'') (\<lambda>status_v.
     bind_err (get_prop status_v ''name'') (\<lambda>status_name.
     bind_err (call_toLowerCase status_name) (\<lambda>status_lower.
     bind_err (get_prop fields ''reporter'') (\<lambda>reporter.
     bind_err (get_prop reporter ''accountId'') (\<lambda>accountId.
     bind_err (get_prop reporter ''displayName'') (\<lambda>displayName.
     bind_err (get_prop fields ''assignee'') (\<lambda>assignee_v.
     bind_err
       (if truthy assignee_v
        then bind_err (get_prop assignee_v ''accountId'') (\<lambda>a_id.
             bind_err (get_prop assignee_v ''displayName'') (\<lambda>a_name.
             Inr (Some \<lparr>person_id = a_id, person_name = a_name\<rparr>)))
        else Inr None) (\<lambda>assignee_p.
     let b = \<lparr>ticket_id = key, title = summary,
               description = js_or description_v (Str []),
               createdAt = created, updatedAt = updated, status = Val (Str status_lower),
               author = \<lparr>person_id = accountId, person_name = displayName\<rparr>,
               assignee = assignee_p\<rparr> in
     bind_err (get_prop fields ''issuetype'') (\<lambda>issuetype.
     bind_err (get_prop issuetype ''name'') (\<lambda>issuetype_name.
       if issuetype_name = Str ''Review''
       then (let text = js_or description_v (Str []) in
            bind_err (branch_from ''Source Branch: '' text) (\<lambda>source.
            bind_err (branch_from ''Target Branch: '' text) (\<lambda>target.
            bind_err (JiraClient_mapJiraStatusToPRState status_name) (\<lambda>st.
            Inr (StandardPullRequest b source target (Str st))))))
       else Inr (StandardIssue b)))))))))))))))))"

subsection \<open>ServiceNow\<close>

definition TABLE_INCIDENT :: string where
  "TABLE_INCIDENT = ''incident''"

definition TABLE_CHANGE_REQUEST :: string where
  "TABLE_CHANGE_REQUEST = ''change_request''"

definition ServiceNowClient_normalizeTicket :: "json \<Rightarrow> error + ticket" where
  "ServiceNowClient_normalizeTicket platformTicket =
     bind_err (get_prop platformTicket ''sys_id'') (\<lambda>sys_id.
     bind_err (get_prop platformTicket ''short_description'') (\<lambda>short_description.
     bind_err (get_prop platformTicket ''description'') (\<lambda>description_v.
     bind_err (get_prop platformTicket ''sys_created_on'') (\<lambda>sys_created_on.
     bind_err (get_prop platformTicket ''sys_updated_on'') (\<lambda>sys_updated_on.
     bind_err (get_prop platformTicket ''state'') (\<lambda>state_v.
     bind_err (ServiceNowClient_normalizeStatus state_v) (\<lambda>status_v.
     bind_err (get_prop platformTicket ''sys_created_by'') (\<lambda>sys_created_by.
     bind_err (get_prop platformTicket ''assigned_to'') (\<lambda>assigned_to.
     bind_err
       (if truthy assigned_to
        then bind_err (get_prop assigned_to ''value'') (\<lambda>a_value.
             bind_err (get_prop assigned_to ''display_value'') (\<lambda>a_display.
             Inr (Some \<lparr>person_id = a_value, person_name = a_display\<rparr>)))
        else Inr None) (\<lambda>assignee_p.
     let b = \<lparr>ticket_id = sys_id, title = short_description,
               description = js_or description_v (Str []),
               createdAt = sys_created_on, updatedAt = sys_updated_on, status = status_v,
               author = \<lparr>person_id = sys_created_by, person_name = sys_created_by\<rparr>,
               assignee = assignee_p\<rparr> in
     bind_err (get_prop platformTicket ''sys_class_name'') (\<lambda>sys_class_name.
     bind_err (get_prop platformTicket ''category'') (\<lambda>category.
       if sys_class_name = Str TABLE_CHANGE_REQUEST \<and> category = Str ''Code Review''
       then (let text = js_or description_v (Str []) in
            bind_err (branch_from ''Source Branch: '' text) (\<lambda>source.
            bind_err (branch_from ''Target Branch: '' text) (\<lambda>target.
            Inr (StandardPullRequest b source target
                  (Str (ServiceNowClient_mapServiceNowStateToPRState state_v))))))
       else Inr (StandardIssue b)))))))))))))"

definition ServiceNowClient_normalizeComment :: "json \<Rightarrow> error + ticket_comment" where
  "ServiceNowClient_normalizeComment platformComment =
     bind_err (get_prop platformComment ''sys_id'') (\<lambda>sys_id.
     bind_err (get_prop platformComment ''work_notes'') (\<lambda>work_notes.
     bind_err (get_prop platformComment ''sys_updated_by'') (\<lambda>sys_updated_by.
     bind_err (get_prop platformComment ''sys_updated_on'') (\<lambda>sys_updated_on.
     Inr \<lparr>comment_id = sys_id, content = js_or work_notes (Str []),
          comment_author = \<lparr>person_id = sys_updated_by, person_name = sys_updated_by\<rparr>,
          comment_createdAt = sys_updated_on\<rparr>))))"

section \<open>Remote calls\<close>

text \<open>
  The SDKs and the HTTP client are outside the code. A call of one of their methods is a
  \<open>request\<close>: the method and its arguments as the adapter wrote them. The number
  parseInt makes of a caller's string is kept as \<open>ParseInt\<close> of that string (no adapter
  looks at it). A transport answers a request from the state of the platform, with the
  data of the response or a rejection, and may change that state. The world also keeps
  the requests in the order the adapter issued them.
\<close>

datatype arg =
    Absent
  | Text string
  | Value json
  | ParseInt string
  | Fields "(string \<times> arg) list"
  | Items "arg list"

datatype request = Request string "arg list"

type_synonym 's transport = "request \<Rightarrow> 's \<Rightarrow> (error + json) \<times> 's"

record 's world =
  platform :: 's
  calls :: "request list"

definition call :: "'s transport \<Rightarrow> request \<Rightarrow> 's world \<Rightarrow> (error + json) \<times> 's world" where
  "call tr req w =
     (case tr req (platform w) of
        (r, s') \<Rightarrow> (r, \<lparr>platform = s', calls = calls w @ [req]\<rparr>))"

text \<open>issues.map(f) on a value the SDK returned: only an array has map.\<close>

fun js_map :: "json \<Rightarrow> (json \<Rightarrow> error + 'a) \<Rightarrow> error + 'a list" where
  "js_map (Arr xs) f = collect (map f xs)"
| "js_map v f = Inl TypeError"

subsection \<open>What the caller passes\<close>

text \<open>
  The arguments of the public methods are typed and come from the caller: the filter of
  getTickets, Partial<CreateTicketOptions> and CreateReviewRequest. An optional field
  that is undefined is \<open>None\<close>.
\<close>

record ticket_filter =
  filter_status :: "string option"
  filter_assigneeId :: "string option"

record partial_ticket_options =
  opt_title :: "string option"
  opt_description :: "string option"
  opt_assigneeId :: "string option"
  opt_labels :: "string list option"

record create_review_request =
  rr_title :: string
  rr_description :: string
  rr_sourceBranch :: string
  rr_targetBranch :: string
  rr_reviewers :: "string list option"
  rr_labels :: "string list option"

text \<open>options?.status and options?.assigneeId, the truthiness of an optional string, and
  an optional string or list as an argument.\<close>

definition status_of :: "ticket_filter option \<Rightarrow> string option" where
  "status_of options = (case options of None \<Rightarrow> None | Some f \<Rightarrow> filter_status f)"

definition assigneeId_of :: "ticket_filter option \<Rightarrow> string option" where
  "assigneeId_of options = (case options of None \<Rightarrow> None | Some f \<Rightarrow> filter_assigneeId f)"

fun truthy_text :: "string option \<Rightarrow> bool" where
  "truthy_text None = False"
| "truthy_text (Some s) = (s \<noteq> [])"

fun opt_text :: "string option \<Rightarrow> arg" where
  "opt_text None = Absent"
| "opt_text (Some s) = Text s"

fun opt_texts :: "string list option \<Rightarrow> arg" where
  "opt_texts None = Absent"
| "opt_texts (Some ss) = Items (map Text ss)"

subsection \<open>GitHub\<close>

record GitHubClient =
  gh_config :: json
  gh_client :: arg
  gh_owner :: json
  gh_repo :: json

definition GitHubClient_pulls_get :: "GitHubClient \<Rightarrow> string \<Rightarrow> request" where
  "GitHubClient_pulls_get this ticketId =
     Request ''pulls.get''
       [Fields [(''owner'', Value (gh_owner this)), (''repo'', Value (gh_repo this)),
                (''pull_number'', ParseInt ticketId)]]"

definition GitHubClient_issues_get :: "GitHubClient \<Rightarrow> string \<Rightarrow> request" where
  "GitHubClient_issues_get this ticketId =
     Request ''issues.get''
       [Fields [(''owner'', Value (gh_owner this)), (''repo'', Value (gh_repo this)),
                (''issue_number'', ParseInt ticketId)]]"

text \<open>GitHubClient.getTicket: the body of try is the first call and the normalisation of
  its data; whatever it throws is caught and dropped, and the catch block runs.\<close>

definition GitHubClient_getTicket ::
  "'s transport \<Rightarrow> GitHubClient \<Rightarrow> string \<Rightarrow> 's world \<Rightarrow> (error + ticket) \<times> 's world" where
  "GitHubClient_getTicket tr this ticketId w =
     (case call tr (GitHubClient_pulls_get this ticketId) w of
        (pr, w1) \<Rightarrow>
          (case bind_err pr GitHubClient_normalizeTicket of
             Inr t \<Rightarrow> (Inr t, w1)
           | Inl caught \<Rightarrow>
               (case call tr (GitHubClient_issues_get this ticketId) w1 of
                  (issue, w2) \<Rightarrow> (bind_err issue GitHubClient_normalizeTicket, w2))))"

definition GitHubClient_issues_listForRepo ::
  "GitHubClient \<Rightarrow> ticket_filter option \<Rightarrow> request" where
  "GitHubClient_issues_listForRepo this options =
     Request ''issues.listForRepo''
       [Fields [(''owner'', Value (gh_owner this)), (''repo'', Value (gh_repo this)),
                (''state'', if truthy_text (status_of options)
                            then opt_text (status_of options) else Text ''open''),
                (''assignee'', opt_text (assigneeId_of options))]]"

definition GitHubClient_getTickets ::
  "'s transport \<Rightarrow> GitHubClient \<Rightarrow> ticket_filter option \<Rightarrow> 's world
     \<Rightarrow> (error + ticket list) \<times> 's world" where
  "GitHubClient_getTickets tr this options w =
     (case call tr (GitHubClient_issues_listForRepo this options) w of
        (issues, w1) \<Rightarrow>
          (bind_err issues (\<lambda>xs. js_map xs GitHubClient_normalizeTicket), w1))"

definition GitHubClient_issues_update ::
  "GitHubClient \<Rightarrow> string \<Rightarrow> partial_ticket_options \<Rightarrow> request" where
  "GitHubClient_issues_update this ticketId updates =
     Request ''issues.update''
       [Fields [(''owner'', Value (gh_owner this)), (''repo'', Value (gh_repo this)),
                (''issue_number'', ParseInt ticketId),
                (''title'', opt_text (opt_title updates)),
                (''body'', opt_text (opt_description updates)),
                (''assignees'', if truthy_text (opt_assigneeId updates)
                                then Items [opt_text (opt_assigneeId updates)] else Absent),
                (''labels'', opt_texts (opt_labels updates))]]"

definition GitHubClient_updateTicket ::
  "'s transport \<Rightarrow> GitHubClient \<Rightarrow> string \<Rightarrow> partial_ticket_options \<Rightarrow> 's world
     \<Rightarrow> (error + ticket) \<times> 's world" where
  "GitHubClient_updateTicket tr this ticketId updates w =
     (case call tr (GitHubClient_issues_update this ticketId updates) w of
        (data, w1) \<Rightarrow> (bind_err data GitHubClient_normalizeTicket, w1))"

definition GitHubClient_issues_createComment ::
  "GitHubClient \<Rightarrow> string \<Rightarrow> string \<Rightarrow> request" where
  "GitHubClient_issues_createComment this ticketId comment =
     Request ''issues.createComment''
       [Fields [(''owner'', Value (gh_owner this)), (''repo'', Value (gh_repo this)),
                (''issue_number'', ParseInt ticketId), (''body'', Text comment)]]"

definition GitHubClient_addComment ::
  "'s transport \<Rightarrow> GitHubClient \<Rightarrow> string \<Rightarrow> string \<Rightarrow> 's world
     \<Rightarrow> (error + ticket_comment) \<times> 's world" where
  "GitHubClient_addComment tr this ticketId comment w =
     (case call tr (GitHubClient_issues_createComment this ticketId comment) w of
        (data, w1) \<Rightarrow> (bind_err data GitHubClient_normalizeComment, w1))"

subsection \<open>GitLab\<close>

record GitLabClient =
  gl_config :: json
  gl_client :: arg
  gl_projectId :: json

definition GitLabClient_MergeRequests_show :: "GitLabClient \<Rightarrow> string \<Rightarrow> request" where
  "GitLabClient_MergeRequests_show this ticketId =
     Request ''MergeRequests.show'' [Value (gl_projectId this), ParseInt ticketId]"

definition GitLabClient_Issues_show :: "GitLabClient \<Rightarrow> string \<Rightarrow> request" where
  "GitLabClient_Issues_show this ticketId =
     Request ''Issues.show'' [Value (gl_projectId this), ParseInt ticketId]"

definition GitLabClient_getTicket ::
  "'s transport \<Rightarrow> GitLabClient \<Rightarrow> string \<Rightarrow> 's world \<Rightarrow> (error + ticket) \<times> 's world" where
  "GitLabClient_getTicket tr this ticketId w =
     (case call tr (GitLabClient_MergeRequests_show this ticketId) w of
        (mr, w1) \<Rightarrow>
          (case bind_err mr GitLabClient_normalizeTicket of
             Inr t \<Rightarrow> (Inr t, w1)
           | Inl caught \<Rightarrow>
               (case call tr (GitLabClient_Issues_show this ticketId) w1 of
                  (issue, w2) \<Rightarrow> (bind_err issue GitLabClient_normalizeTicket, w2))))"

definition GitLabClient_Issues_all :: "GitLabClient \<Rightarrow> ticket_filter option \<Rightarrow> request" where
  "GitLabClient_Issues_all this options =
     Request ''Issues.all''
       [Fields [(''projectId'', Value (gl_projectId this)),
                (''state'', opt_text (GitLabClient_mapStatus (status_of options))),
                (''assigneeId'',
                   case assigneeId_of options of
                     None \<Rightarrow> Absent
                   | Some a \<Rightarrow> if a = [] then Absent else ParseInt a)]]"

definition GitLabClient_getTickets ::
  "'s transport \<Rightarrow> GitLabClient \<Rightarrow> ticket_filter option \<Rightarrow> 's world
     \<Rightarrow> (error + ticket list) \<times> 's world" where
  "GitLabClient_getTickets tr this options w =
     (case call tr (GitLabClient_Issues_all this options) w of
        (issues, w1) \<Rightarrow>
          (bind_err issues (\<lambda>xs. js_map xs GitLabClient_normalizeTicket), w1))"

definition GitLabClient_Issues_edit ::
  "GitLabClient \<Rightarrow> string \<Rightarrow> partial_ticket_options \<Rightarrow> request" where
  "GitLabClient_Issues_edit this ticketId updates =
     Request ''Issues.edit''
       [Value (gl_projectId this), ParseInt ticketId,
        Fields [(''title'', opt_text (opt_title updates)),
                (''description'', opt_text (opt_description updates)),
                (''assigneeIds'',
                   case opt_assigneeId updates of
                     None \<Rightarrow> Absent
                   | Some a \<Rightarrow> if a = [] then Absent else Items [ParseInt a]),
                (''labels'',
                   case opt_labels updates of
                     None \<Rightarrow> Absent
                   | Some ls \<Rightarrow> Text (join_with '','' ls))]]"

text \<open>GitLabClient.updateTicket: one call, to the issue resource.\<close>

definition GitLabClient_updateTicket ::
  "'s transport \<Rightarrow> GitLabClient \<Rightarrow> string \<Rightarrow> partial_ticket_options \<Rightarrow> 's world
     \<Rightarrow> (error + ticket) \<times> 's world" where
  "GitLabClient_updateTicket tr this ticketId updates w =
     (case call tr (GitLabClient_Issues_edit this ticketId updates) w of
        (issue, w1) \<Rightarrow> (bind_err issue GitLabClient_normalizeTicket, w1))"

definition GitLabClient_MergeRequestNotes_create ::
  "GitLabClient \<Rightarrow> string \<Rightarrow> string \<Rightarrow> request" where
  "GitLabClient_MergeRequestNotes_create this ticketId comment =
     Request ''MergeRequestNotes.create''
       [Value (gl_projectId this), ParseInt ticketId, Text comment]"

definition GitLabClient_IssueNotes_create ::
  "GitLabClient \<Rightarrow> string \<Rightarrow> string \<Rightarrow> request" where
  "GitLabClient_IssueNotes_create this ticketId comment =
     Request ''IssueNotes.create''
       [Value (gl_projectId this), ParseInt ticketId, Text comment]"

definition GitLabClient_addComment ::
  "'s transport \<Rightarrow> GitLabClient \<Rightarrow> string \<Rightarrow> string \<Rightarrow> 's world
     \<Rightarrow> (error + ticket_comment) \<times> 's world" where
  "GitLabClient_addComment tr this ticketId comment w =
     (case call tr (GitLabClient_MergeRequestNotes_create this ticketId comment) w of
        (note, w1) \<Rightarrow>
          (case bind_err note GitLabClient_normalizeComment of
             Inr c \<Rightarrow> (Inr c, w1)
           | Inl caught \<Rightarrow>
               (case call tr (GitLabClient_IssueNotes_create this ticketId comment) w1 of
                  (note2, w2) \<Rightarrow> (bind_err note2 GitLabClient_normalizeComment, w2))))"

subsection \<open>The description of a review request\<close>

text \<open>
  JiraClient.createReviewRequest and ServiceNowClient.createReviewRequest build the
  description with the same template literal, trimmed: an empty line, the caller's
  description, an empty line, the two branch lines, the reviewers line, and a last line of
  four blanks that trim removes again.
\<close>

definition reviewers_text :: "string list option \<Rightarrow> string" where
  "reviewers_text reviewers =
     (case reviewers of
        None \<Rightarrow> ''None assigned''
      | Some rs \<Rightarrow> if join_with '', '' rs = [] then ''None assigned'' else join_with '', '' rs)"

definition review_description :: "create_review_request \<Rightarrow> string" where
  "review_description options =
     trim ([CHR 0x0A] @ rr_description options @ [CHR 0x0A, CHR 0x0A] @
           ''Source Branch: '' @ rr_sourceBranch options @ [CHR 0x0A] @
           ''Target Branch: '' @ rr_targetBranch options @ [CHR 0x0A] @
           ''Reviewers: '' @ reviewers_text (rr_reviewers options) @ [CHR 0x0A] @ ''    '')"

subsection \<open>Jira\<close>

record JiraClient =
  jira_config :: json
  jira_client :: arg
  jira_projectKey :: json

definition ticket_fields :: arg where
  "ticket_fields =
     Items (map Text [''summary'', ''description'', ''status'', ''created'', ''updated'',
                      ''assignee'', ''reporter''])"

definition JiraClient_issues_getIssue :: "json \<Rightarrow> request" where
  "JiraClient_issues_getIssue ticketId =
     Request ''issues.getIssue'' [Fields [(''issueIdOrKey'', Value ticketId), (''fields'', ticket_fields)]]"

text \<open>JiraClient.getTicket. createReviewRequest calls it with the key of the response, a
  value of the record, so the identifier is a value here.\<close>

definition JiraClient_getTicket ::
  "'s transport \<Rightarrow> JiraClient \<Rightarrow> json \<Rightarrow> 's world \<Rightarrow> (error + ticket) \<times> 's world" where
  "JiraClient_getTicket tr this ticketId w =
     (case call tr (JiraClient_issues_getIssue ticketId) w of
        (issue, w1) \<Rightarrow> (bind_err issue JiraClient_normalizeTicket, w1))"

definition JiraClient_jql :: "JiraClient \<Rightarrow> ticket_filter option \<Rightarrow> error + string" where
  "JiraClient_jql this options =
     bind_err (to_string (jira_projectKey this)) (\<lambda>projectKey.
       let jql0 = ''project = '' @ projectKey;
           jql1 = (case status_of options of
                     None \<Rightarrow> jql0
                   | Some s \<Rightarrow> if s = [] then jql0
                              else jql0 @ '' AND status = '' @ [CHR 0x22] @ s @ [CHR 0x22]);
           jql2 = (case assigneeId_of options of
                     None \<Rightarrow> jql1
                   | Some a \<Rightarrow> if a = [] then jql1
                              else jql1 @ '' AND assignee = '' @ [CHR 0x22] @ a @ [CHR 0x22])
       in Inr jql2)"

definition JiraClient_searchForIssuesUsingJql :: "string \<Rightarrow> request" where
  "JiraClient_searchForIssuesUsingJql jql =
     Request ''issueSearch.searchForIssuesUsingJql''
       [Fields [(''jql'', Text jql), (''fields'', ticket_fields)]]"

definition JiraClient_getTickets ::
  "'s transport \<Rightarrow> JiraClient \<Rightarrow> ticket_filter option \<Rightarrow> 's world
     \<Rightarrow> (error + ticket list) \<times> 's world" where
  "JiraClient_getTickets tr this options w =
     (case JiraClient_jql this options of
        Inl e \<Rightarrow> (Inl e, w)
      | Inr jql \<Rightarrow>
          (case call tr (JiraClient_searchForIssuesUsingJql jql) w of
             (response, w1) \<Rightarrow>
               (bind_err response (\<lambda>r.
                bind_err (get_prop r ''issues'') (\<lambda>issues.
                js_map issues JiraClient_normalizeTicket)), w1)))"

definition JiraClient_review_fields ::
  "JiraClient \<Rightarrow> create_review_request \<Rightarrow> (string \<times> arg) list" where
  "JiraClient_review_fields this options =
     [(''project'', Fields [(''key'', Value (jira_projectKey this))]),
      (''summary'', Text (rr_title options)),
      (''description'', Text (review_description options)),
      (''issuetype'', Fields [(''name'', Text ''Review'')]),
      (''labels'',
         Items (map Text
           ((case rr_labels options of None \<Rightarrow> [] | Some ls \<Rightarrow> ls) @ [''code-review''])))]"

definition JiraClient_createIssue_review :: "JiraClient \<Rightarrow> create_review_request \<Rightarrow> request" where
  "JiraClient_createIssue_review this options =
     Request ''issues.createIssue'' [Fields [(''fields'', Fields (JiraClient_review_fields this options))]]"

definition JiraClient_addWatcher :: "json \<Rightarrow> string \<Rightarrow> request" where
  "JiraClient_addWatcher key username =
     Request ''issueWatchers.addWatcher''
       [Fields [(''issueIdOrKey'', Value key), (''username'', Text username)]]"

text \<open>JiraClient.createReviewRequest: create the issue, add the first reviewer as a
  watcher when there is one, read the issue back, and lay the caller's branches and the
  state open over what was read.\<close>

definition JiraClient_createReviewRequest ::
  "'s transport \<Rightarrow> JiraClient \<Rightarrow> create_review_request \<Rightarrow> 's world
     \<Rightarrow> (error + ticket) \<times> 's world" where
  "JiraClient_createReviewRequest tr this options w =
     (case call tr (JiraClient_createIssue_review this options) w of
        (Inl e, w1) \<Rightarrow> (Inl e, w1)
      | (Inr issue, w1) \<Rightarrow>
          (let watched =
             (case rr_reviewers options of
                Some (r # rs) \<Rightarrow>
                  (case get_prop issue ''key'' of
                     Inl e \<Rightarrow> (Inl e, w1)
                   | Inr key \<Rightarrow> call tr (JiraClient_addWatcher key r) w1)
              | _ \<Rightarrow> (Inr Undefined, w1))
           in case watched of
                (Inl e, w2) \<Rightarrow> (Inl e, w2)
              | (Inr done, w2) \<Rightarrow>
                  (case get_prop issue ''key'' of
                     Inl e \<Rightarrow> (Inl e, w2)
                   | Inr key \<Rightarrow>
                       (case JiraClient_getTicket tr this key w2 of
                          (Inl e, w3) \<Rightarrow> (Inl e, w3)
                        | (Inr createdIssue, w3) \<Rightarrow>
                            (Inr (StandardPullRequest (base createdIssue)
                                    (Str (rr_sourceBranch options))
                                    (Str (rr_targetBranch options)) (Str ''open'')), w3)))))"

subsection \<open>ServiceNow\<close>

record ServiceNowClient =
  sn_config :: json
  sn_client :: arg

definition table_url :: "string \<Rightarrow> string \<Rightarrow> string" where
  "table_url table ticketId = ''/table/'' @ table @ ''/'' @ ticketId"

definition ServiceNowClient_get :: "string \<Rightarrow> request" where
  "ServiceNowClient_get url = Request ''get'' [Text url]"

definition ServiceNowClient_patch :: "string \<Rightarrow> (string \<times> arg) list \<Rightarrow> request" where
  "ServiceNowClient_patch url payload = Request ''patch'' [Text url, Fields payload]"

definition ServiceNowClient_post :: "string \<Rightarrow> (string \<times> arg) list \<Rightarrow> request" where
  "ServiceNowClient_post url payload = Request ''post'' [Text url, Fields payload]"

text \<open>The ticket in the data of a response: normalizeTicket(data.result).\<close>

definition result_ticket :: "json \<Rightarrow> error + ticket" where
  "result_ticket data = bind_err (get_prop data ''result'') ServiceNowClient_normalizeTicket"

definition result_comment :: "json \<Rightarrow> error + ticket_comment" where
  "result_comment data = bind_err (get_prop data ''result'') ServiceNowClient_normalizeComment"

definition ServiceNowClient_getTicket ::
  "'s transport \<Rightarrow> ServiceNowClient \<Rightarrow> string \<Rightarrow> 's world \<Rightarrow> (error + ticket) \<times> 's world" where
  "ServiceNowClient_getTicket tr this ticketId w =
     (case call tr (ServiceNowClient_get (table_url TABLE_CHANGE_REQUEST ticketId)) w of
        (changeResult, w1) \<Rightarrow>
          (case bind_err changeResult result_ticket of
             Inr t \<Rightarrow> (Inr t, w1)
           | Inl caught \<Rightarrow>
               (case call tr (ServiceNowClient_get (table_url TABLE_INCIDENT ticketId)) w1 of
                  (incidentResult, w2) \<Rightarrow> (bind_err incidentResult result_ticket, w2))))"

text \<open>The query of getTickets; slice(0, -1) drops the last circumflex.\<close>

definition ServiceNowClient_query :: "ticket_filter option \<Rightarrow> error + string" where
  "ServiceNowClient_query options =
     bind_err
       (case status_of options of
          None \<Rightarrow> Inr []
        | Some s \<Rightarrow>
            if s = [] then Inr []
            else bind_err (val_to_string (ServiceNowClient_mapStatusToServiceNow s))
                   (\<lambda>code. Inr (''state='' @ code @ ''^''))) (\<lambda>query1.
     let query2 = (case assigneeId_of options of
                     None \<Rightarrow> query1
                   | Some a \<Rightarrow> if a = [] then query1
                              else query1 @ ''assigned_to='' @ a @ ''^'')
     in Inr (if query2 = [] then [] else ''?sysparm_query='' @ butlast query2))"

text \<open>ServiceNowClient.getTickets issues both reads before it awaits them, the incidents
  first; when both are rejected the model reports the rejection of the first.\<close>

definition ServiceNowClient_getTickets ::
  "'s transport \<Rightarrow> ServiceNowClient \<Rightarrow> ticket_filter option \<Rightarrow> 's world
     \<Rightarrow> (error + ticket list) \<times> 's world" where
  "ServiceNowClient_getTickets tr this options w =
     (case ServiceNowClient_query options of
        Inl e \<Rightarrow> (Inl e, w)
      | Inr query \<Rightarrow>
          (case call tr (ServiceNowClient_get (''/table/'' @ TABLE_INCIDENT @ query)) w of
             (incidentResponse, w1) \<Rightarrow>
               (case call tr (ServiceNowClient_get (''/table/'' @ TABLE_CHANGE_REQUEST @ query)) w1 of
                  (changeResponse, w2) \<Rightarrow>
                    (bind_err incidentResponse (\<lambda>incidents.
                     bind_err changeResponse (\<lambda>changes.
                     bind_err (get_prop incidents ''result'') (\<lambda>incident_list.
                     bind_err (js_map incident_list ServiceNowClient_normalizeTicket) (\<lambda>ts1.
                     bind_err (get_prop changes ''result'') (\<lambda>change_list.
                     bind_err (js_map change_list ServiceNowClient_normalizeTicket) (\<lambda>ts2.
                     Inr (ts1 @ ts2))))))), w2))))"

definition ServiceNowClient_update_payload :: "partial_ticket_options \<Rightarrow> (string \<times> arg) list" where
  "ServiceNowClient_update_payload updates =
     (if truthy_text (opt_title updates)
      then [(''short_description'', opt_text (opt_title updates))] else []) @
     (if truthy_text (opt_description updates)
      then [(''description'', opt_text (opt_description updates))] else []) @
     (if truthy_text (opt_assigneeId updates)
      then [(''assigned_to'', opt_text (opt_assigneeId updates))] else []) @
     (case opt_labels updates of
        Some (l # ls) \<Rightarrow> [(''category'', Text l)]
      | _ \<Rightarrow> [])"

definition ServiceNowClient_updateTicket ::
  "'s transport \<Rightarrow> ServiceNowClient \<Rightarrow> string \<Rightarrow> partial_ticket_options \<Rightarrow> 's world
     \<Rightarrow> (error + ticket) \<times> 's world" where
  "ServiceNowClient_updateTicket tr this ticketId updates w =
     (let payload = ServiceNowClient_update_payload updates in
      case call tr (ServiceNowClient_patch (table_url TABLE_CHANGE_REQUEST ticketId) payload) w of
        (data, w1) \<Rightarrow>
          (case bind_err data result_ticket of
             Inr t \<Rightarrow> (Inr t, w1)
           | Inl caught \<Rightarrow>
               (case call tr (ServiceNowClient_patch (table_url TABLE_INCIDENT ticketId) payload) w1 of
                  (data2, w2) \<Rightarrow> (bind_err data2 result_ticket, w2))))"

definition ServiceNowClient_addComment ::
  "'s transport \<Rightarrow> ServiceNowClient \<Rightarrow> string \<Rightarrow> string \<Rightarrow> 's world
     \<Rightarrow> (error + ticket_comment) \<times> 's world" where
  "ServiceNowClient_addComment tr this ticketId comment w =
     (let payload = [(''work_notes'', Text comment)] in
      case call tr (ServiceNowClient_patch (table_url TABLE_CHANGE_REQUEST ticketId) payload) w of
        (data, w1) \<Rightarrow>
          (case bind_err data result_comment of
             Inr c \<Rightarrow> (Inr c, w1)
           | Inl caught \<Rightarrow>
               (case call tr (ServiceNowClient_patch (table_url TABLE_INCIDENT ticketId) payload) w1 of
                  (data2, w2) \<Rightarrow> (bind_err data2 result_comment, w2))))"

definition ServiceNowClient_review_payload :: "create_review_request \<Rightarrow> (string \<times> arg) list" where
  "ServiceNowClient_review_payload options =
     [(''short_description'', Text (rr_title options)),
      (''description'', Text (review_description options)),
      (''type'', Text ''normal''),
      (''category'', Text ''Code Review''),
      (''assigned_to'', case rr_reviewers options of Some (r # rs) \<Rightarrow> Text r | _ \<Rightarrow> Absent),
      (''watch_list'', case rr_reviewers options of
                         None \<Rightarrow> Absent
                       | Some rs \<Rightarrow> Text (join_with '','' (tl rs)))]"

text \<open>ServiceNowClient.createReviewRequest builds the returned review request from the
  created record and the caller's branches, without normalizeTicket.\<close>

definition ServiceNowClient_createReviewRequest ::
  "'s transport \<Rightarrow> ServiceNowClient \<Rightarrow> create_review_request \<Rightarrow> 's world
     \<Rightarrow> (error + ticket) \<times> 's world" where
  "ServiceNowClient_createReviewRequest tr this options w =
     (case call tr (ServiceNowClient_post (''/table/'' @ TABLE_CHANGE_REQUEST)
                      (ServiceNowClient_review_payload options)) w of
        (data, w1) \<Rightarrow>
          (bind_err data (\<lambda>d.
           bind_err (get_prop d ''result'') (\<lambda>createdChange.
           bind_err (get_prop createdChange ''sys_id'') (\<lambda>sys_id.
           bind_err (get_prop createdChange ''short_description'') (\<lambda>short_description.
           bind_err (get_prop createdChange ''description'') (\<lambda>description_v.
           bind_err (get_prop createdChange ''sys_created_on'') (\<lambda>sys_created_on.
           bind_err (get_prop createdChange ''sys_updated_on'') (\<lambda>sys_updated_on.
           bind_err (get_prop createdChange ''state'') (\<lambda>state_v.
           bind_err (ServiceNowClient_normalizeStatus state_v) (\<lambda>status_v.
           bind_err (get_prop createdChange ''sys_created_by'') (\<lambda>sys_created_by.
           bind_err (get_prop createdChange ''assigned_to'') (\<lambda>assigned_to.
           bind_err
             (if truthy assigned_to
              then bind_err (get_prop assigned_to ''value'') (\<lambda>a_value.
                   bind_err (get_prop assigned_to ''display_value'') (\<lambda>a_display.
                   Inr (Some \<lparr>person_id = a_value, person_name = a_display\<rparr>)))
              else Inr None) (\<lambda>assignee_p.
           Inr (StandardPullRequest
                  \<lparr>ticket_id = sys_id, title = short_description, description = description_v,
                   createdAt = sys_created_on, updatedAt = sys_updated_on, status = status_v,
                   author = \<lparr>person_id = sys_created_by, person_name = sys_created_by\<rparr>,
                   assignee = assignee_p\<rparr>
                  (Str (rr_sourceBranch options)) (Str (rr_targetBranch options))
                  (Str (ServiceNowClient_mapServiceNowStateToPRState state_v))))))))))))))), w1))"

section \<open>The factory\<close>

text \<open>
  The clients of the SDKs are made by code outside this repository: new Octokit, new
  Gitlab, new Version3Client and axios.create. Such a constructor is given its options
  and returns the client or throws, for instance Version3Client on an absent host and
  Octokit on a token that is not a string. The constructors are a parameter of the
  model: the name of the constructor and its options give the client or the error.
\<close>

type_synonym sdk = "string \<Rightarrow> arg \<Rightarrow> error + arg"

text \<open>
  The constructors of the adapters keep the configuration, make the client of the SDK
  from the connection parameters and keep it. A constructor throws where it reads a
  property of an absent auth object and where the constructor of the SDK throws.
\<close>

definition GitHubClient_new :: "sdk \<Rightarrow> json \<Rightarrow> error + GitHubClient" where
  "GitHubClient_new sdk config =
     bind_err (get_prop config ''auth'') (\<lambda>auth.
     bind_err (get_prop auth ''apiToken'') (\<lambda>apiToken.
     bind_err (sdk ''Octokit'' (Fields [(''auth'', Value apiToken)])) (\<lambda>client.
     bind_err (get_prop config ''owner'') (\<lambda>owner.
     bind_err (get_prop config ''repo'') (\<lambda>repo.
     Inr \<lparr>gh_config = config, gh_client = client, gh_owner = owner, gh_repo = repo\<rparr>)))))"

definition GitLabClient_new :: "sdk \<Rightarrow> json \<Rightarrow> error + GitLabClient" where
  "GitLabClient_new sdk config =
     bind_err (get_prop config ''apiToken'') (\<lambda>apiToken.
     bind_err (get_prop config ''baseUrl'') (\<lambda>baseUrl.
     bind_err (sdk ''Gitlab'' (Fields [(''token'', Value apiToken), (''host'', Value baseUrl)]))
       (\<lambda>client.
     bind_err (get_prop config ''projectId'') (\<lambda>projectId.
     Inr \<lparr>gl_config = config, gl_client = client, gl_projectId = projectId\<rparr>))))"

definition JiraClient_new :: "sdk \<Rightarrow> json \<Rightarrow> error + JiraClient" where
  "JiraClient_new sdk config =
     bind_err (get_prop config ''baseUrl'') (\<lambda>baseUrl.
     bind_err (get_prop config ''email'') (\<lambda>email.
     bind_err (get_prop config ''apiToken'') (\<lambda>apiToken.
     bind_err
       (sdk ''Version3Client''
          (Fields [(''host'', Value baseUrl),
                   (''authentication'',
                      Fields [(''basic'', Fields [(''email'', Value email),
                                                  (''apiToken'', Value apiToken)])])]))
       (\<lambda>client.
     bind_err (get_prop config ''projectKey'') (\<lambda>projectKey.
     Inr \<lparr>jira_config = config, jira_client = client, jira_projectKey = projectKey\<rparr>)))))"

definition ServiceNowClient_new :: "sdk \<Rightarrow> json \<Rightarrow> error + ServiceNowClient" where
  "ServiceNowClient_new sdk config =
     bind_err (get_prop config ''type'') (\<lambda>type_v.
     bind_err (get_prop config ''instance'') (\<lambda>instance_v.
     bind_err (to_string instance_v) (\<lambda>instance_text.
     bind_err (get_prop config ''auth'') (\<lambda>auth.
     bind_err (get_prop auth ''type'') (\<lambda>auth_type.
     bind_err
       (if auth_type = Str ''oauth''
        then bind_err (get_prop auth ''accessToken'') (\<lambda>accessToken.
             bind_err (to_string accessToken) (\<lambda>token_text.
             Inr [(''Authorization'', Text (''Bearer '' @ token_text))]))
        else Inr []) (\<lambda>authorization.
     bind_err
       (if auth_type = Str ''basic''
        then bind_err (get_prop auth ''username'') (\<lambda>username.
             bind_err (get_prop auth ''password'') (\<lambda>password.
             Inr [(''auth'', Fields [(''username'', Value username),
                                    (''password'', Value password)])]))
        else Inr []) (\<lambda>basic.
     bind_err
       (sdk ''axios.create''
          (Fields ([(''baseURL'',
                      Text (''https://'' @ instance_text @ ''.service-now.com/api/now/v2''))] @
                   basic @
                   [(''headers'',
                       Fields ([(''Content-Type'', Text ''application/json''),
                                (''Accept'', Text ''application/json'')] @ authorization))])))
       (\<lambda>client.
     Inr \<lparr>sn_config =
            Obj [(''type'', type_v),
                 (''baseUrl'', Str (''https://'' @ instance_text @ ''.service-now.com'')),
                 (''auth'', auth)],
          sn_client = client\<rparr>))))))))"

datatype client =
    GitHub GitHubClient
  | GitLab GitLabClient
  | Jira JiraClient
  | ServiceNow ServiceNowClient

text \<open>TicketClientFactory.createClient: a switch on config.type; the operator && in the
  two guards tests its right operand only when the left one holds.\<close>

definition TicketClientFactory_createClient :: "sdk \<Rightarrow> json \<Rightarrow> error + client" where
  "TicketClientFactory_createClient sdk config =
     bind_err (get_prop config ''type'') (\<lambda>type_v.
       if type_v = Str ''github''
       then bind_err (GitHubClient_new sdk config) (\<lambda>c. Inr (GitHub c))
       else if type_v = Str ''gitlab''
       then bind_err (js_in ''apiToken'' config) (\<lambda>has_apiToken.
            bind_err (if has_apiToken then js_in ''projectId'' config else Inr False)
              (\<lambda>complete.
            if \<not> complete then Inl (Error ''Invalid GitLab configuration'')
            else bind_err (GitLabClient_new sdk config) (\<lambda>c. Inr (GitLab c))))
       else if type_v = Str ''jira''
       then bind_err (js_in ''apiToken'' config) (\<lambda>has_apiToken.
            bind_err (if has_apiToken then js_in ''email'' config else Inr False)
              (\<lambda>has_email.
            bind_err (if has_email then js_in ''projectKey'' config else Inr False)
              (\<lambda>complete.
            if \<not> complete then Inl (Error ''Invalid Jira configuration'')
            else bind_err (JiraClient_new sdk config) (\<lambda>c. Inr (Jira c)))))
       else if type_v = Str ''servicenow''
       then bind_err (ServiceNowClient_new sdk config) (\<lambda>c. Inr (ServiceNow c))
       else bind_err (to_string type_v) (\<lambda>type_text.
            Inl (Error (''Unknown platform type: '' @ type_text))))"

section \<open>Probing two resource types\<close>

text \<open>
  \<open>probe_then_fallback run tr first second post w\<close> says of an operation \<open>run\<close>, started in
  the world \<open>w\<close>, that it is a probe of the request \<open>first\<close> with a fallback to the request
  \<open>second\<close>. An attempt is a call together with what the operation makes of its data
  (\<open>post\<close>). The operation starts with \<open>first\<close>; it goes on to \<open>second\<close> exactly
  when the first attempt failed, and issues nothing else; a failure of the first attempt
  is dropped, the outcome then being that of the second attempt alone; a successful
  first attempt is the outcome; and an error reaches the caller only when both attempts
  failed, and is the error of the second.
\<close>

definition probe_then_fallback ::
  "('s world \<Rightarrow> (error + 'a) \<times> 's world) \<Rightarrow> 's transport \<Rightarrow> request \<Rightarrow> request
     \<Rightarrow> (json \<Rightarrow> error + 'a) \<Rightarrow> 's world \<Rightarrow> bool" where
  "probe_then_fallback run tr first second post w =
     (let r1 = fst (call tr first w); w1 = snd (call tr first w);
          r2 = fst (call tr second w1); w2 = snd (call tr second w1);
          attempt1 = bind_err r1 post; attempt2 = bind_err r2 post
      in take (Suc (length (calls w))) (calls (snd (run w))) = calls w @ [first]
       \<and> (calls (snd (run w)) = calls w @ [first, second] \<longleftrightarrow> isl attempt1)
       \<and> (calls (snd (run w)) = calls w @ [first] \<longleftrightarrow> \<not> isl attempt1)
       \<and> (isl r1 \<longrightarrow> run w = (attempt2, w2))
       \<and> (isl attempt1 \<longrightarrow> run w = (attempt2, w2))
       \<and> (\<not> isl attempt1 \<longrightarrow> run w = (attempt1, w1))
       \<and> (isl (fst (run w)) \<longrightarrow> isl attempt1 \<and> attempt2 = fst (run w)))"

section \<open>Example records and platforms\<close>

text \<open>A pull request as the issue list of GitHub returns it (the marker, no head and no
  base), the same pull request as the pull request resource returns it, and an issue.\<close>

definition issue_shaped_pull_request :: json where
  "issue_shaped_pull_request =
     Obj [(''number'', Num 7), (''title'', Str ''Add parser''), (''body'', Null),
          (''created_at'', Str ''2024-01-01T00:00:00Z''),
          (''updated_at'', Str ''2024-01-02T00:00:00Z''), (''state'', Str ''open''),
          (''user'', Obj [(''id'', Num 1), (''login'', Str ''octocat'')]),
          (''assignee'', Null),
          (''pull_request'', Obj [(''url'', Str ''https://api.github.com/repos/o/r/pulls/7'')])]"

definition pull_request_record :: json where
  "pull_request_record =
     Obj [(''number'', Num 7), (''title'', Str ''Add parser''), (''body'', Null),
          (''created_at'', Str ''2024-01-01T00:00:00Z''),
          (''updated_at'', Str ''2024-01-02T00:00:00Z''), (''state'', Str ''open''),
          (''user'', Obj [(''id'', Num 1), (''login'', Str ''octocat'')]),
          (''assignee'', Null),
          (''pull_request'', Obj [(''url'', Str ''https://api.github.com/repos/o/r/pulls/7'')]),
          (''head'', Obj [(''ref'', Str ''feat/x'')]), (''base'', Obj [(''ref'', Str ''main'')])]"

text \<open>The same pull request with a null author, as the platform returns it when the
  account of the author is gone.\<close>

definition orphaned_pull_request :: json where
  "orphaned_pull_request =
     Obj [(''number'', Num 7), (''title'', Str ''Add parser''), (''body'', Null),
          (''created_at'', Str ''2024-01-01T00:00:00Z''),
          (''updated_at'', Str ''2024-01-02T00:00:00Z''), (''state'', Str ''open''),
          (''user'', Null), (''assignee'', Null),
          (''pull_request'', Obj [(''url'', Str ''https://api.github.com/repos/o/r/pulls/7'')]),
          (''head'', Obj [(''ref'', Str ''feat/x'')]), (''base'', Obj [(''ref'', Str ''main'')])]"

definition issue_record :: json where
  "issue_record =
     Obj [(''number'', Num 9), (''title'', Str ''Crash on start''), (''body'', Str ''Steps''),
          (''created_at'', Str ''2024-02-01T00:00:00Z''),
          (''updated_at'', Str ''2024-02-02T00:00:00Z''), (''state'', Str ''closed''),
          (''user'', Obj [(''id'', Num 2), (''login'', Str ''hubot'')]),
          (''assignee'', Obj [(''id'', Num 1), (''login'', Str ''octocat'')])]"

definition octo_client :: GitHubClient where
  "octo_client = \<lparr>gh_config = Null, gh_client = Absent, gh_owner = Str ''o'', gh_repo = Str ''r''\<rparr>"

text \<open>A platform without state that rejects one request and answers every other one
  with the same data, and the world before any call.\<close>

definition rejecting :: "request \<Rightarrow> json \<Rightarrow> unit transport" where
  "rejecting refused data =
     (\<lambda>req s. if req = refused then (Inl (TransportFailure ''404''), s) else (Inr data, s))"

definition answering :: "json \<Rightarrow> unit transport" where
  "answering data = (\<lambda>req s. (Inr data, s))"

definition start :: "unit world" where
  "start = \<lparr>platform = (), calls = []\<rparr>"

text \<open>The value of a property where the read does not throw, undefined otherwise; used to
  name the fields of a record in the statements below.\<close>

definition field :: "json \<Rightarrow> string \<Rightarrow> json" where
  "field v k = (case get_prop v k of Inr x \<Rightarrow> x | Inl e \<Rightarrow> Undefined)"

text \<open>A Jira issue of type Review with a given description and status name, and a
  ServiceNow record of a given table and category with a given state and description.\<close>

definition jira_review_record :: "string \<Rightarrow> string \<Rightarrow> json" where
  "jira_review_record status_name description_text =
     Obj [(''key'', Str ''PRJ-7''),
          (''fields'',
             Obj [(''summary'', Str ''Add parser''), (''description'', Str description_text),
                  (''created'', Str ''2024-03-01T10:00:00.000+0000''),
                  (''updated'', Str ''2024-03-02T10:00:00.000+0000''),
                  (''status'', Obj [(''name'', Str status_name)]),
                  (''reporter'', Obj [(''accountId'', Str ''5b10''), (''displayName'', Str ''Ada'')]),
                  (''assignee'', Null),
                  (''issuetype'', Obj [(''name'', Str ''Review'')])])]"

definition servicenow_record :: "string \<Rightarrow> string \<Rightarrow> string \<Rightarrow> string \<Rightarrow> json" where
  "servicenow_record table category state_code description_text =
     Obj [(''sys_id'', Str ''46d44a5dc0a8010e''), (''short_description'', Str ''Add parser''),
          (''description'', Str description_text),
          (''sys_created_on'', Str ''2024-03-01 10:00:00''),
          (''sys_updated_on'', Str ''2024-03-02 10:00:00''),
          (''state'', Str state_code), (''sys_created_by'', Str ''ada''),
          (''assigned_to'', Str []), (''sys_class_name'', Str table),
          (''category'', Str category)]"

text \<open>A review request as a caller asks for it, and one whose own description already
  holds a line with the source label.\<close>

definition review_options :: create_review_request where
  "review_options =
     \<lparr>rr_title = ''Add parser'', rr_description = ''Adds the parser.'',
      rr_sourceBranch = ''feat/x'', rr_targetBranch = ''main'',
      rr_reviewers = None, rr_labels = None\<rparr>"

definition quoting_options :: create_review_request where
  "quoting_options =
     \<lparr>rr_title = ''Add parser'', rr_description = ''Source Branch: old'',
      rr_sourceBranch = ''feat/x'', rr_targetBranch = ''main'',
      rr_reviewers = None, rr_labels = None\<rparr>"

text \<open>Configurations: GitHub without owner and repo, GitLab without projectId, and an
  unknown tag.\<close>

definition github_config_without_repository :: json where
  "github_config_without_repository =
     Obj [(''type'', Str ''github''),
          (''auth'', Obj [(''type'', Str ''token''), (''apiToken'', Str ''secret'')])]"

definition gitlab_config_without_project :: json where
  "gitlab_config_without_project =
     Obj [(''type'', Str ''gitlab''), (''baseUrl'', Str ''https://gitlab.com''),
          (''apiToken'', Str ''secret'')]"

definition bitbucket_config :: json where
  "bitbucket_config = Obj [(''type'', Str ''bitbucket''), (''apiToken'', Str ''secret'')]"

text \<open>Constructors of the SDKs: ones that accept every option and keep the options as
  the client, and ones of which Version3Client throws on an undefined host.\<close>

definition accepting_sdk :: sdk where
  "accepting_sdk name options = Inr options"

definition strict_sdk :: sdk where
  "strict_sdk name options =
     (case options of
        Fields ((k, Value Undefined) # rest) \<Rightarrow>
          if name = ''Version3Client'' \<and> k = ''host'' then Inl (Error ''host is required'')
          else Inr options
      | _ \<Rightarrow> Inr options)"

definition jira_config_without_host :: json where
  "jira_config_without_host =
     Obj [(''type'', Str ''jira''), (''email'', Str ''ada@example.org''),
          (''apiToken'', Str ''secret''), (''projectKey'', Str ''PRJ'')]"

definition now_client :: ServiceNowClient where
  "now_client = \<lparr>sn_config = Null, sn_client = Absent\<rparr>"

definition lab_client :: GitLabClient where
  "lab_client = \<lparr>gl_config = Null, gl_client = Absent, gl_projectId = Num 42\<rparr>"

definition jira_client_prj :: JiraClient where
  "jira_client_prj = \<lparr>jira_config = Null, jira_client = Absent, jira_projectKey = Str ''PRJ''\<rparr>"

text \<open>The status filter bogus of getTickets.\<close>

definition bogus_filter :: "ticket_filter option" where
  "bogus_filter = Some \<lparr>filter_status = Some ''bogus'', filter_assigneeId = None\<rparr>"

text \<open>The shared status vocabulary, as section 4.2 of the specification lists it.\<close>

definition shared_vocabulary :: "string list" where
  "shared_vocabulary =
     [''open'', ''closed'', ''merged'', ''new'', ''in_progress'', ''on_hold'', ''resolved'',
      ''pending'']"

section \<open>Properties\<close>

lemma js_includes_sublist: "js_includes s needle = sublist needle s"
  by (induction s) (auto simp: sublist_Cons_right)

lemma lower_literals:
  "toLowerCase ''Done'' = ''done''" "toLowerCase ''Rejected'' = ''rejected''"
  "toLowerCase ''In Review'' = ''in review''"
  by (simp_all add: toLowerCase_def lower_char_def upper_chars_def lower_chars_def)

subsection \<open>The ServiceNow status table\<close>



text \<open>
  C3: normalizeStatus maps the six known codes to their names and every other string to
  itself. The lookup stateMap[status] also finds what the literal inherits: for the
  string constructor it returns the function Object, which is truthy, so the fallback to
  the input is not taken and the result is not the input string.
\<close>

theorem normalizeStatus_inherited_key:
  "ServiceNowClient_normalizeStatus (Str ''constructor'') = Inr (ProtoMember ''constructor'')
   \<and> ServiceNowClient_normalizeStatus (Str ''constructor'') \<noteq> Inr (Val (Str ''constructor''))"
  by (simp add: ServiceNowClient_normalizeStatus_def bind_err_def literal_get_def
      normalizeStatus_stateMap_def object_prototype_members_def)

subsection \<open>The Jira state heuristic\<close>

text \<open>
  C4: for every status name, mapJiraStatusToPRState answers merged when the lowercased
  name contains done or merged, otherwise closed when it contains closed or rejected,
  otherwise open; Done is merged, Rejected is closed, In Review is open.
\<close>

theorem mapJiraStatusToPRState_keywords:
  "JiraClient_mapJiraStatusToPRState (Str s) =
     Inr (if sublist ''done'' (toLowerCase s) \<or> sublist ''merged'' (toLowerCase s) then ''merged''
          else if sublist ''closed'' (toLowerCase s) \<or> sublist ''rejected'' (toLowerCase s)
          then ''closed'' else ''open'')
   \<and> JiraClient_mapJiraStatusToPRState (Str ''Done'') = Inr ''merged''
   \<and> JiraClient_mapJiraStatusToPRState (Str ''Rejected'') = Inr ''closed''
   \<and> JiraClient_mapJiraStatusToPRState (Str ''In Review'') = Inr ''open''"
  by (simp add: JiraClient_mapJiraStatusToPRState_def bind_err_def lower_literals
      flip: js_includes_sublist)

theorem mapJiraStatusToPRState_keywords_witness:
  "JiraClient_mapJiraStatusToPRState (Str ''Merged'') = Inr ''merged''"
  using mapJiraStatusToPRState_keywords [of "''Merged''"]
  by (simp add: toLowerCase_def lower_char_def upper_chars_def lower_chars_def
      flip: js_includes_sublist)

subsection \<open>The ServiceNow state reduction\<close>

text \<open>
  C5: mapServiceNowStateToPRState sends the codes 1, 2, 3 and -5 to open, 6 to merged
  and 7 to closed, and every other string to open.
\<close>

theorem mapServiceNowStateToPRState_table:
  "ServiceNowClient_mapServiceNowStateToPRState (Str ''1'') = ''open''
   \<and> ServiceNowClient_mapServiceNowStateToPRState (Str ''2'') = ''open''
   \<and> ServiceNowClient_mapServiceNowStateToPRState (Str ''3'') = ''open''
   \<and> ServiceNowClient_mapServiceNowStateToPRState (Str ''-5'') = ''open''
   \<and> ServiceNowClient_mapServiceNowStateToPRState (Str ''6'') = ''merged''
   \<and> ServiceNowClient_mapServiceNowStateToPRState (Str ''7'') = ''closed''
   \<and> ServiceNowClient_mapServiceNowStateToPRState (Str s) =
       (if s = ''6'' then ''merged'' else if s = ''7'' then ''closed'' else ''open'')"
  by (simp add: ServiceNowClient_mapServiceNowStateToPRState_def)

theorem mapServiceNowStateToPRState_table_witness:
  "ServiceNowClient_mapServiceNowStateToPRState (Str ''4'') = ''open''"
  using mapServiceNowStateToPRState_table [of "''4''"] by simp

subsection \<open>Errors of the run time\<close>

lemma bind_err_Inr_iff: "bind_err m f = Inr y \<longleftrightarrow> (\<exists>x. m = Inr x \<and> f x = Inr y)"
  by (cases m) (simp_all add: bind_err_def)

lemma bind_err_Inl_iff:
  "bind_err m f = Inl e \<longleftrightarrow> m = Inl e \<or> (\<exists>x. m = Inr x \<and> f x = Inl e)"
  by (cases m) (simp_all add: bind_err_def)

lemma get_prop_TypeError: "get_prop v k = Inl e \<Longrightarrow> e = TypeError"
  by (cases v) simp_all

lemma js_in_TypeError: "js_in k v = Inl e \<Longrightarrow> e = TypeError"
  by (cases v) simp_all

lemma js_in_object: "js_in k v = Inr True \<Longrightarrow> \<exists>ps. v = Obj ps"
  by (cases v) simp_all

lemma collect_TypeError:
  "collect rs = Inl e \<Longrightarrow> (\<And>r e'. r \<in> set rs \<Longrightarrow> r = Inl e' \<Longrightarrow> e' = TypeError)
     \<Longrightarrow> e = TypeError"
  by (induction rs arbitrary: e) (auto simp: bind_err_Inl_iff)

lemma collect_fails: "Inl e \<in> set rs \<Longrightarrow> \<exists>e'. collect rs = Inl e'"
  by (induction rs) (auto simp: bind_err_def split: sum.splits)

lemma to_string_TypeError: "to_string v = Inl e \<Longrightarrow> e = TypeError"
proof (induction v arbitrary: e rule: to_string.induct)
  case (6 xs)
  then show ?case
    by (auto simp: bind_err_Inl_iff split: if_splits dest!: collect_TypeError)
qed (auto split: if_splits)

lemma call_toString_TypeError: "call_toString v = Inl e \<Longrightarrow> e = TypeError"
  by (cases v) (auto dest: to_string_TypeError simp del: to_string.simps)

lemma call_toLowerCase_TypeError: "call_toLowerCase v = Inl e \<Longrightarrow> e = TypeError"
  by (cases v) simp_all

subsection \<open>GitHub records with the pull request marker\<close>

lemma GitHub_normalizeTicket_TypeError:
  "GitHubClient_normalizeTicket pt = Inl e \<Longrightarrow> e = TypeError"
  unfolding GitHubClient_normalizeTicket_def Let_def
  by (auto simp: bind_err_Inl_iff split: if_splits
      dest: get_prop_TypeError call_toString_TypeError js_in_TypeError)

lemma GitHub_normalizeTicket_reads_refs:
  assumes "js_in ''pull_request'' pt = Inr True"
    and "GitHubClient_normalizeTicket pt = Inr t"
  shows "\<exists>head_v base_v head_ref base_ref.
           get_prop pt ''head'' = Inr head_v \<and> get_prop head_v ''ref'' = Inr head_ref \<and>
           get_prop pt ''base'' = Inr base_v \<and> get_prop base_v ''ref'' = Inr base_ref \<and>
           sourceBranch t = Some head_ref \<and> targetBranch t = Some base_ref"
  using assms unfolding GitHubClient_normalizeTicket_def Let_def
  by (auto simp: bind_err_Inr_iff split: if_splits)

lemma GitHub_normalizeTicket_fails:
  assumes "js_in ''pull_request'' pt = Inr True"
    and "get_prop pt ''head'' = Inr Undefined \<or> get_prop pt ''head'' = Inr Null
       \<or> get_prop pt ''base'' = Inr Undefined \<or> get_prop pt ''base'' = Inr Null"
  shows "GitHubClient_normalizeTicket pt = Inl TypeError"
proof (cases "GitHubClient_normalizeTicket pt")
  case (Inl e)
  then show ?thesis by (simp add: GitHub_normalizeTicket_TypeError)
next
  case (Inr t)
  from GitHub_normalizeTicket_reads_refs [OF assms(1) Inr] assms(2)
  show ?thesis by auto
qed

lemma GitHub_getTickets_fails:
  assumes "call tr (GitHubClient_issues_listForRepo this options) w = (Inr (Arr xs), w1)"
    and "pt \<in> set xs"
    and "js_in ''pull_request'' pt = Inr True"
    and "get_prop pt ''head'' = Inr Undefined \<or> get_prop pt ''head'' = Inr Null
       \<or> get_prop pt ''base'' = Inr Undefined \<or> get_prop pt ''base'' = Inr Null"
  shows "GitHubClient_getTickets tr this options w = (Inl TypeError, w1)"
proof -
  have "Inl TypeError \<in> set (map GitHubClient_normalizeTicket xs)"
    using GitHub_normalizeTicket_fails [OF assms(3,4)] assms(2) by force
  then obtain e where e: "collect (map GitHubClient_normalizeTicket xs) = Inl e"
    using collect_fails by blast
  then have "e = TypeError"
    by (rule collect_TypeError) (auto dest: GitHub_normalizeTicket_TypeError [OF sym])
  with e show ?thesis
    using assms(1) by (simp add: GitHubClient_getTickets_def bind_err_def)
qed

lemma normalize_pull_request_record:
  "GitHubClient_normalizeTicket pull_request_record =
     Inr (StandardPullRequest
       \<lparr>ticket_id = Str ''7'', title = Str ''Add parser'', description = Str [],
        createdAt = Str ''2024-01-01T00:00:00Z'', updatedAt = Str ''2024-01-02T00:00:00Z'',
        status = Val (Str ''open''),
        author = \<lparr>person_id = Str ''1'', person_name = Str ''octocat''\<rparr>, assignee = None\<rparr>
       (Str ''feat/x'') (Str ''main'') (Str ''open''))"
  by (simp add: GitHubClient_normalizeTicket_def pull_request_record_def bind_err_def
      js_or_def show_int_def)

lemma normalize_issue_record:
  "GitHubClient_normalizeTicket issue_record =
     Inr (StandardIssue
       \<lparr>ticket_id = Str ''9'', title = Str ''Crash on start'', description = Str ''Steps'',
        createdAt = Str ''2024-02-01T00:00:00Z'', updatedAt = Str ''2024-02-02T00:00:00Z'',
        status = Val (Str ''closed''),
        author = \<lparr>person_id = Str ''2'', person_name = Str ''hubot''\<rparr>,
        assignee = Some \<lparr>person_id = Str ''1'', person_name = Str ''octocat''\<rparr>\<rparr>)"
  by (simp add: GitHubClient_normalizeTicket_def issue_record_def bind_err_def
      js_or_def show_int_def object_prototype_members_def)

lemma normalize_orphaned_pull_request:
  "GitHubClient_normalizeTicket orphaned_pull_request = Inl TypeError"
  by (simp add: GitHubClient_normalizeTicket_def orphaned_pull_request_def bind_err_def
      show_int_def)

text \<open>
  C10: on a GitHub record that carries the pull_request marker, normalizeTicket reads
  head.ref and base.ref whatever else the record holds: where it returns a ticket, the
  branches of the ticket are these two reads; where the record has no head and no base,
  as the pull requests in the issue list have none, it throws a TypeError, and so does
  getTickets on any issue list that contains such a record.
\<close>

theorem GitHub_pull_request_needs_head_and_base:
  "js_in ''pull_request'' pt = Inr True \<Longrightarrow>
     (GitHubClient_normalizeTicket pt = Inr t \<longrightarrow>
        Some (bind_err (get_prop pt ''head'') (\<lambda>h. get_prop h ''ref'')) =
          map_option Inr (sourceBranch t) \<and>
        Some (bind_err (get_prop pt ''base'') (\<lambda>b. get_prop b ''ref'')) =
          map_option Inr (targetBranch t))
   \<and> (get_prop pt ''head'' = Inr Undefined \<and> get_prop pt ''base'' = Inr Undefined \<longrightarrow>
        GitHubClient_normalizeTicket pt = Inl TypeError \<and>
        (call tr (GitHubClient_issues_listForRepo this options) w = (Inr (Arr xs), w1) \<and>
         pt \<in> set xs \<longrightarrow>
           GitHubClient_getTickets tr this options w = (Inl TypeError, w1)))"
proof (intro conjI impI)
  assume m: "js_in ''pull_request'' pt = Inr True"
    and ok: "GitHubClient_normalizeTicket pt = Inr t"
  from GitHub_normalizeTicket_reads_refs [OF m ok]
  show "Some (bind_err (get_prop pt ''head'') (\<lambda>h. get_prop h ''ref'')) =
          map_option Inr (sourceBranch t)"
    and "Some (bind_err (get_prop pt ''base'') (\<lambda>b. get_prop b ''ref'')) =
          map_option Inr (targetBranch t)"
    by (auto simp: bind_err_def)
next
  assume m: "js_in ''pull_request'' pt = Inr True"
    and l: "get_prop pt ''head'' = Inr Undefined \<and> get_prop pt ''base'' = Inr Undefined"
  then show "GitHubClient_normalizeTicket pt = Inl TypeError"
    by (simp add: GitHub_normalizeTicket_fails)
  assume "call tr (GitHubClient_issues_listForRepo this options) w = (Inr (Arr xs), w1)
    \<and> pt \<in> set xs"
  with m l show "GitHubClient_getTickets tr this options w = (Inl TypeError, w1)"
    by (auto intro: GitHub_getTickets_fails)
qed

theorem GitHub_pull_request_needs_head_and_base_witness:
  "GitHubClient_normalizeTicket issue_shaped_pull_request = Inl TypeError
   \<and> GitHubClient_getTickets (answering (Arr [issue_record, issue_shaped_pull_request]))
        octo_client None start
      = (Inl TypeError,
         \<lparr>platform = (), calls = [GitHubClient_issues_listForRepo octo_client None]\<rparr>)
   \<and> map_sum id sourceBranch (GitHubClient_normalizeTicket pull_request_record)
       = Inr (Some (Str ''feat/x''))
   \<and> map_sum id targetBranch (GitHubClient_normalizeTicket pull_request_record)
       = Inr (Some (Str ''main''))"
proof -
  have m: "js_in ''pull_request'' issue_shaped_pull_request = Inr True"
    and h: "get_prop issue_shaped_pull_request ''head'' = Inr Undefined"
    and b: "get_prop issue_shaped_pull_request ''base'' = Inr Undefined"
    by (simp_all add: issue_shaped_pull_request_def)
  have c: "call (answering (Arr [issue_record, issue_shaped_pull_request]))
        (GitHubClient_issues_listForRepo octo_client None) start
      = (Inr (Arr [issue_record, issue_shaped_pull_request]),
         \<lparr>platform = (), calls = [GitHubClient_issues_listForRepo octo_client None]\<rparr>)"
    by (simp add: call_def answering_def start_def)
  have m2: "js_in ''pull_request'' pull_request_record = Inr True"
    by (simp add: pull_request_record_def)
  note fails = GitHub_pull_request_needs_head_and_base [OF m,
      of "StandardIssue undefined" "answering (Arr [issue_record, issue_shaped_pull_request])"
         octo_client None start "[issue_record, issue_shaped_pull_request]"
         "\<lparr>platform = (), calls = [GitHubClient_issues_listForRepo octo_client None]\<rparr>"]
  note reads = GitHub_pull_request_needs_head_and_base [OF m2,
      of "StandardPullRequest
       \<lparr>ticket_id = Str ''7'', title = Str ''Add parser'', description = Str [],
        createdAt = Str ''2024-01-01T00:00:00Z'', updatedAt = Str ''2024-01-02T00:00:00Z'',
        status = Val (Str ''open''),
        author = \<lparr>person_id = Str ''1'', person_name = Str ''octocat''\<rparr>, assignee = None\<rparr>
       (Str ''feat/x'') (Str ''main'') (Str ''open'')"
      "answering Null" octo_client None start "[]" start]
  from fails h b c have
    "GitHubClient_normalizeTicket issue_shaped_pull_request = Inl TypeError"
    "GitHubClient_getTickets (answering (Arr [issue_record, issue_shaped_pull_request]))
        octo_client None start
      = (Inl TypeError,
         \<lparr>platform = (), calls = [GitHubClient_issues_listForRepo octo_client None]\<rparr>)"
    by simp_all
  moreover from reads normalize_pull_request_record have
    "map_sum id sourceBranch (GitHubClient_normalizeTicket pull_request_record)
       = Inr (Some (Str ''feat/x''))"
    "map_sum id targetBranch (GitHubClient_normalizeTicket pull_request_record)
       = Inr (Some (Str ''main''))"
    by simp_all
  ultimately show ?thesis by simp
qed

subsection \<open>Probe, then fall back\<close>

lemma calls_call [simp]: "calls (snd (call tr req w)) = calls w @ [req]"
  by (simp add: call_def split: prod.splits)

lemma probe_then_fallbackI:
  assumes "\<And>w. run w =
     (case call tr first w of
        (r1, w1) \<Rightarrow>
          (case bind_err r1 post of
             Inr t \<Rightarrow> (Inr t, w1)
           | Inl caught \<Rightarrow> (case call tr second w1 of (r2, w2) \<Rightarrow> (bind_err r2 post, w2))))"
  shows "probe_then_fallback run tr first second post w"
proof (cases "bind_err (fst (call tr first w)) post")
  case (Inl e)
  then have "run w = (bind_err (fst (call tr second (snd (call tr first w)))) post,
                      snd (call tr second (snd (call tr first w))))"
    by (simp add: assms case_prod_beta)
  with Inl show ?thesis
    by (simp add: probe_then_fallback_def Let_def)
next
  case (Inr t)
  then have "run w = (Inr t, snd (call tr first w))"
    by (simp add: assms case_prod_beta)
  moreover from Inr have "\<not> isl (fst (call tr first w))"
    by (auto simp: bind_err_def split: sum.splits)
  ultimately show ?thesis using Inr
    by (simp add: probe_then_fallback_def Let_def)
qed

lemma GitHub_getTicket_probes:
  "probe_then_fallback (GitHubClient_getTicket tr this ticketId) tr
     (GitHubClient_pulls_get this ticketId) (GitHubClient_issues_get this ticketId)
     GitHubClient_normalizeTicket w"
  by (rule probe_then_fallbackI) (simp add: GitHubClient_getTicket_def)

lemma GitLab_getTicket_probes:
  "probe_then_fallback (GitLabClient_getTicket tr this ticketId) tr
     (GitLabClient_MergeRequests_show this ticketId) (GitLabClient_Issues_show this ticketId)
     GitLabClient_normalizeTicket w"
  by (rule probe_then_fallbackI) (simp add: GitLabClient_getTicket_def)

lemma ServiceNow_getTicket_probes:
  "probe_then_fallback (ServiceNowClient_getTicket tr this ticketId) tr
     (ServiceNowClient_get (table_url TABLE_CHANGE_REQUEST ticketId))
     (ServiceNowClient_get (table_url TABLE_INCIDENT ticketId))
     result_ticket w"
  by (rule probe_then_fallbackI) (simp add: ServiceNowClient_getTicket_def)

text \<open>
  A pull request whose author is null: the pull request resource of GitHub answers the
  first request of getTicket with it, so the first remote call does not fail. Reading
  user.id throws inside the try block, the error is dropped, and getTicket issues the
  second request although the platform rejected nothing; the second record fails the
  same way, and the caller gets a TypeError although no remote call failed.
\<close>

theorem getTicket_falls_back_without_remote_failure:
  "GitHubClient_getTicket (answering orphaned_pull_request) octo_client ''7'' start =
     (Inl TypeError,
      \<lparr>platform = (),
       calls = [Request ''pulls.get''
                  [Fields [(''owner'', Value (Str ''o'')), (''repo'', Value (Str ''r'')),
                           (''pull_number'', ParseInt ''7'')]],
                Request ''issues.get''
                  [Fields [(''owner'', Value (Str ''o'')), (''repo'', Value (Str ''r'')),
                           (''issue_number'', ParseInt ''7'')]]]\<rparr>)
   \<and> fst (call (answering orphaned_pull_request)
            (Request ''pulls.get''
               [Fields [(''owner'', Value (Str ''o'')), (''repo'', Value (Str ''r'')),
                        (''pull_number'', ParseInt ''7'')]]) start) =
       Inr orphaned_pull_request
   \<and> fst (call (answering orphaned_pull_request)
            (Request ''issues.get''
               [Fields [(''owner'', Value (Str ''o'')), (''repo'', Value (Str ''r'')),
                        (''issue_number'', ParseInt ''7'')]])
            (snd (call (answering orphaned_pull_request)
               (Request ''pulls.get''
                  [Fields [(''owner'', Value (Str ''o'')), (''repo'', Value (Str ''r'')),
                           (''pull_number'', ParseInt ''7'')]]) start))) =
       Inr orphaned_pull_request"
  by (simp add: GitHubClient_getTicket_def GitHubClient_pulls_get_def
      GitHubClient_issues_get_def call_def answering_def start_def octo_client_def
      normalize_orphaned_pull_request bind_err_def)

text \<open>
  C1, as amended. getTicket of the GitHub, GitLab and ServiceNow adapters first issues
  the request for the review-like resource: pulls.get with the owner, the repository and
  the parsed identifier as pull_number; MergeRequests.show with the project and the
  parsed identifier; get on the path of the change_request table. The request for the
  issue-like resource (issues.get with the identifier as issue_number; Issues.show; get on
  the path of the incident table) is issued second, if and only if the first attempt
  threw, where an attempt is the body of the try block: the remote call and the
  normalisation of the record it returned. A rejected first call always leads to the
  second request, and what the first attempt threw never reaches the caller; when the
  first attempt returns a ticket, that ticket is the result and there is no second
  request. The caller gets an error only after both attempts threw, and it is the error
  of the second attempt.
\<close>

theorem getTicket_probe_then_fallback:
  "probe_then_fallback (GitHubClient_getTicket tr github ticketId) tr
     (Request ''pulls.get''
        [Fields [(''owner'', Value (gh_owner github)), (''repo'', Value (gh_repo github)),
                 (''pull_number'', ParseInt ticketId)]])
     (Request ''issues.get''
        [Fields [(''owner'', Value (gh_owner github)), (''repo'', Value (gh_repo github)),
                 (''issue_number'', ParseInt ticketId)]])
     GitHubClient_normalizeTicket w
   \<and> probe_then_fallback (GitLabClient_getTicket tr gitlab ticketId) tr
     (Request ''MergeRequests.show'' [Value (gl_projectId gitlab), ParseInt ticketId])
     (Request ''Issues.show'' [Value (gl_projectId gitlab), ParseInt ticketId])
     GitLabClient_normalizeTicket w
   \<and> probe_then_fallback (ServiceNowClient_getTicket tr servicenow ticketId) tr
     (Request ''get'' [Text (''/table/change_request/'' @ ticketId)])
     (Request ''get'' [Text (''/table/incident/'' @ ticketId)])
     (\<lambda>data. bind_err (get_prop data ''result'') ServiceNowClient_normalizeTicket) w"
proof -
  have "result_ticket =
      (\<lambda>data. bind_err (get_prop data ''result'') ServiceNowClient_normalizeTicket)"
    by (rule ext) (simp add: result_ticket_def)
  with GitHub_getTicket_probes [of tr github ticketId w]
    GitLab_getTicket_probes [of tr gitlab ticketId w]
    ServiceNow_getTicket_probes [of tr servicenow ticketId w]
  show ?thesis
    by (simp add: GitHubClient_pulls_get_def GitHubClient_issues_get_def
        GitLabClient_MergeRequests_show_def GitLabClient_Issues_show_def
        ServiceNowClient_get_def table_url_def TABLE_CHANGE_REQUEST_def TABLE_INCIDENT_def)
qed

theorem getTicket_probe_then_fallback_witness:
  "GitHubClient_getTicket
     (rejecting
        (Request ''pulls.get''
           [Fields [(''owner'', Value (Str ''o'')), (''repo'', Value (Str ''r'')),
                    (''pull_number'', ParseInt ''9'')]])
        issue_record)
     octo_client ''9'' start =
   (Inr (StandardIssue
       \<lparr>ticket_id = Str ''9'', title = Str ''Crash on start'', description = Str ''Steps'',
        createdAt = Str ''2024-02-01T00:00:00Z'', updatedAt = Str ''2024-02-02T00:00:00Z'',
        status = Val (Str ''closed''),
        author = \<lparr>person_id = Str ''2'', person_name = Str ''hubot''\<rparr>,
        assignee = Some \<lparr>person_id = Str ''1'', person_name = Str ''octocat''\<rparr>\<rparr>),
    \<lparr>platform = (),
     calls = [Request ''pulls.get''
                [Fields [(''owner'', Value (Str ''o'')), (''repo'', Value (Str ''r'')),
                         (''pull_number'', ParseInt ''9'')]],
              Request ''issues.get''
                [Fields [(''owner'', Value (Str ''o'')), (''repo'', Value (Str ''r'')),
                         (''issue_number'', ParseInt ''9'')]]]\<rparr>)"
proof -
  let ?first = "Request ''pulls.get''
                [Fields [(''owner'', Value (Str ''o'')), (''repo'', Value (Str ''r'')),
                         (''pull_number'', ParseInt ''9'')]]"
  let ?second = "Request ''issues.get''
                [Fields [(''owner'', Value (Str ''o'')), (''repo'', Value (Str ''r'')),
                         (''issue_number'', ParseInt ''9'')]]"
  let ?tr = "rejecting ?first issue_record"
  have first: "call ?tr ?first start =
      (Inl (TransportFailure ''404''), \<lparr>platform = (), calls = [?first]\<rparr>)"
    by (simp add: call_def rejecting_def start_def)
  have second: "call ?tr ?second \<lparr>platform = (), calls = [?first]\<rparr> =
      (Inr issue_record, \<lparr>platform = (), calls = [?first, ?second]\<rparr>)"
    by (simp add: call_def rejecting_def)
  from getTicket_probe_then_fallback [of ?tr octo_client "''9''" start]
  have "probe_then_fallback (GitHubClient_getTicket ?tr octo_client ''9'') ?tr
     ?first ?second GitHubClient_normalizeTicket start"
    by (simp add: octo_client_def)
  then show ?thesis
    by (simp add: probe_then_fallback_def Let_def first second normalize_issue_record
        bind_err_def)
qed

subsection \<open>Updates and comments\<close>

lemma GitLab_addComment_probes:
  "probe_then_fallback (GitLabClient_addComment tr this ticketId comment) tr
     (GitLabClient_MergeRequestNotes_create this ticketId comment)
     (GitLabClient_IssueNotes_create this ticketId comment)
     GitLabClient_normalizeComment w"
  by (rule probe_then_fallbackI) (simp add: GitLabClient_addComment_def)

lemma ServiceNow_updateTicket_probes:
  "probe_then_fallback (ServiceNowClient_updateTicket tr this ticketId updates) tr
     (ServiceNowClient_patch (table_url TABLE_CHANGE_REQUEST ticketId)
        (ServiceNowClient_update_payload updates))
     (ServiceNowClient_patch (table_url TABLE_INCIDENT ticketId)
        (ServiceNowClient_update_payload updates))
     result_ticket w"
  by (rule probe_then_fallbackI) (simp add: ServiceNowClient_updateTicket_def Let_def)

lemma ServiceNow_addComment_probes:
  "probe_then_fallback (ServiceNowClient_addComment tr this ticketId comment) tr
     (ServiceNowClient_patch (table_url TABLE_CHANGE_REQUEST ticketId)
        [(''work_notes'', Text comment)])
     (ServiceNowClient_patch (table_url TABLE_INCIDENT ticketId)
        [(''work_notes'', Text comment)])
     result_comment w"
  by (rule probe_then_fallbackI) (simp add: ServiceNowClient_addComment_def Let_def)

text \<open>
  C8: addComment and updateTicket probe the review-like resource first and fall back to
  the issue-like one. ServiceNow does so in both methods and GitLab in addComment (the
  three lemmas above). GitLabClient.updateTicket does not: whatever the platform
  answers, it issues the one request Issues.edit and never asks the merge request
  resource.
\<close>

theorem GitLab_updateTicket_single_call:
  "calls (snd (GitLabClient_updateTicket tr this ticketId updates w)) =
     calls w @ [GitLabClient_Issues_edit this ticketId updates]"
  by (simp add: GitLabClient_updateTicket_def case_prod_beta)

subsection \<open>Searching a label in a text\<close>

lemma match_label_none: "\<not> sublist label s \<Longrightarrow> match_label label s = None"
  by (induction s) (auto simp: sublist_Cons_right Let_def)

lemma match_label_skip:
  assumes "\<And>zs. suffix zs xs \<Longrightarrow> zs \<noteq> [] \<Longrightarrow> \<not> prefix label (zs @ ys)"
  shows "match_label label (xs @ ys) = match_label label ys"
  using assms
proof (induction xs)
  case Nil
  then show ?case by simp
next
  case (Cons x xs)
  have "\<not> prefix label ((x # xs) @ ys)"
    using Cons.prems [of "x # xs"] by simp
  moreover have "match_label label (xs @ ys) = match_label label ys"
    using Cons.prems by (intro Cons.IH) (auto simp: suffix_Cons)
  ultimately show ?case by (simp add: Let_def)
qed

lemma match_label_after_line:
  assumes "c \<notin> set label" and "\<not> sublist label xs" and "xs = [] \<or> last xs = c"
  shows "match_label label (xs @ ys) = match_label label ys"
proof (rule match_label_skip)
  fix zs assume zs: "suffix zs xs" "zs \<noteq> []"
  then have "last zs = c"
    using assms(3) by (auto simp: suffix_def)
  show "\<not> prefix label (zs @ ys)"
  proof
    assume "prefix label (zs @ ys)"
    then consider "prefix label zs" | us where "label = zs @ us"
      by (auto simp: prefix_append)
    then show False
    proof cases
      case 1
      then have "sublist label xs"
        using zs(1) by (meson prefix_imp_sublist suffix_imp_sublist sublist_order.order_trans)
      with assms(2) show False by simp
    next
      case 2
      with zs(2) \<open>last zs = c\<close> have "c \<in> set label"
        by (metis last_in_set set_append UnI1)
      with assms(1) show False by simp
    qed
  qed
qed

lemma match_label_hit:
  assumes "v \<noteq> []" and "\<forall>c\<in>set v. \<not> line_terminator c"
    and "rest = [] \<or> line_terminator (hd rest)"
  shows "match_label label (label @ v @ rest) = Some v"
proof -
  have tw: "takeWhile (\<lambda>x. \<not> line_terminator x) (v @ rest) = v"
    using assms(2,3) by (cases rest) (auto simp: takeWhile_append1 takeWhile_append2)
  obtain c cs where cs: "label @ v @ rest = c # cs"
    using assms(1) by (cases "label @ v @ rest") auto
  have "match_label label (c # cs) = Some v"
    using tw assms(1) by (subst match_label.simps(2)) (simp add: Let_def flip: cs)
  then show ?thesis by (simp add: cs)
qed

lemma sublist_without_char:
  assumes "c \<notin> set label"
  shows "sublist label (xs @ c # ys) \<longleftrightarrow> sublist label xs \<or> sublist label ys"
proof
  assume "sublist label (xs @ c # ys)"
  then obtain ps ss where eq: "xs @ c # ys = ps @ label @ ss"
    by (auto simp: sublist_def)
  then show "sublist label xs \<or> sublist label ys"
  proof (cases "length ps + length label \<le> length xs")
    case True
    from eq have "take (length ps + length label) (xs @ c # ys) = ps @ label"
      by simp
    with True have "take (length ps + length label) xs = ps @ label"
      by simp
    then have "sublist label xs"
      by (metis sublist_appendI append_Nil2 sublist_take sublist_order.order_trans sublist_append_leftI)
    then show ?thesis ..
  next
    case False
    show ?thesis
    proof (cases "length xs < length ps")
      case True
      from eq have "drop (Suc (length xs)) (xs @ c # ys) = drop (Suc (length xs)) (ps @ label @ ss)"
        by simp
      with True have "ys = drop (Suc (length xs)) ps @ label @ ss"
        by simp
      then show ?thesis by (auto simp: sublist_def)
    next
      case ge: False
      with False have i: "length ps \<le> length xs" "length xs < length ps + length label"
        by auto
      from eq have "(xs @ c # ys) ! length xs = (ps @ label @ ss) ! length xs"
        by simp
      moreover from i have lt: "length xs - length ps < length label"
        by arith
      ultimately have "c = label ! (length xs - length ps)"
        using i by (simp add: nth_append)
      with lt have "c \<in> set label"
        by simp
      with assms show ?thesis by simp
    qed
  qed
next
  assume "sublist label xs \<or> sublist label ys"
  then show "sublist label (xs @ c # ys)"
    by (metis sublist_append sublist_Cons_right)
qed

lemma sublist_after_foreign:
  assumes "label \<noteq> []" and "hd label \<notin> set mid"
  shows "sublist label (mid @ zs) \<longleftrightarrow> sublist label zs"
  using assms(2)
proof (induction mid)
  case Nil
  then show ?case by simp
next
  case (Cons m mid)
  have "\<not> prefix label (m # mid @ zs)"
    using assms(1) Cons.prems by (cases label) auto
  with Cons show ?case by (simp add: sublist_Cons_right)
qed

lemma trim_middle:
  assumes "\<not> js_space a" and "\<not> js_space b"
  shows "trim (xs @ a # mid @ b # ys) =
           dropWhile js_space xs @ a # mid @ b # rev (dropWhile js_space (rev ys))"
proof -
  have "dropWhile js_space (xs @ a # mid @ b # ys) = dropWhile js_space xs @ a # mid @ b # ys"
    using assms(1) by (simp add: dropWhile_append3)
  moreover have "rev (dropWhile js_space xs @ a # mid @ b # ys) =
      rev ys @ b # rev (dropWhile js_space xs @ a # mid)"
    by simp
  moreover have "dropWhile js_space (rev ys @ b # rev (dropWhile js_space xs @ a # mid)) =
      dropWhile js_space (rev ys) @ b # rev (dropWhile js_space xs @ a # mid)"
    by (rule dropWhile_append3) (rule assms(2))
  ultimately show ?thesis
    by (simp add: trim_def)
qed

subsection \<open>The description of a review request\<close>

lemma not_space_S: "\<not> js_space CHR ''S''" and not_space_colon: "\<not> js_space CHR '':''"
  by (simp_all add: js_space_def)

lemma review_description_shape:
  "review_description options =
     dropWhile js_space (CHR 0x0A # rr_description options @ [CHR 0x0A, CHR 0x0A]) @
     ''Source Branch: '' @ rr_sourceBranch options @ CHR 0x0A #
     ''Target Branch: '' @ rr_targetBranch options @ CHR 0x0A #
     ''Reviewers:'' @
     rev (dropWhile js_space
            (rev (CHR '' '' # reviewers_text (rr_reviewers options) @ CHR 0x0A # ''    '')))"
proof -
  have "review_description options =
      trim ((CHR 0x0A # rr_description options @ [CHR 0x0A, CHR 0x0A]) @ CHR ''S'' #
            (''ource Branch: '' @ rr_sourceBranch options @ CHR 0x0A #
             ''Target Branch: '' @ rr_targetBranch options @ CHR 0x0A # ''Reviewers'') @
            CHR '':'' # (CHR '' '' # reviewers_text (rr_reviewers options) @ CHR 0x0A # ''    ''))"
    by (simp add: review_description_def)
  also have "\<dots> =
      dropWhile js_space (CHR 0x0A # rr_description options @ [CHR 0x0A, CHR 0x0A]) @ CHR ''S'' #
            (''ource Branch: '' @ rr_sourceBranch options @ CHR 0x0A #
             ''Target Branch: '' @ rr_targetBranch options @ CHR 0x0A # ''Reviewers'') @
            CHR '':'' # rev (dropWhile js_space
              (rev (CHR '' '' # reviewers_text (rr_reviewers options) @ CHR 0x0A # ''    '')))"
    by (rule trim_middle [OF not_space_S not_space_colon])
  finally show ?thesis by simp
qed

lemma leading_part:
  fixes d :: string
  defines "pre \<equiv> dropWhile js_space (CHR 0x0A # d @ [CHR 0x0A, CHR 0x0A])"
  assumes ne: "label \<noteq> []" and nl: "CHR 0x0A \<notin> set label" and d: "\<not> sublist label d"
  shows "pre = [] \<or> last pre = CHR 0x0A" and "\<not> sublist label pre"
proof -
  have suf: "suffix pre (CHR 0x0A # d @ [CHR 0x0A, CHR 0x0A])"
    unfolding pre_def by (rule suffix_dropWhile)
  then show "pre = [] \<or> last pre = CHR 0x0A"
    by (cases "pre = []") (auto simp: suffix_def dest!: arg_cong [where f = last])
  have "\<not> sublist label (CHR 0x0A # d @ [CHR 0x0A, CHR 0x0A])"
  proof -
    have "\<not> sublist label [CHR 0x0A]"
      using ne sublist_without_char [OF nl, of "[]" "[]"] by simp
    then have "\<not> sublist label (d @ CHR 0x0A # [CHR 0x0A])"
      using d sublist_without_char [OF nl, of d "[CHR 0x0A]"] by simp
    then show ?thesis
      using ne sublist_without_char [OF nl, of "[]" "d @ CHR 0x0A # [CHR 0x0A]"] by simp
  qed
  with suf show "\<not> sublist label pre"
    by (meson suffix_imp_sublist sublist_order.order_trans)
qed

lemma labels_facts:
  "''Source Branch: '' \<noteq> []" "''Target Branch: '' \<noteq> []"
  "CHR 0x0A \<notin> set ''Source Branch: ''" "CHR 0x0A \<notin> set ''Target Branch: ''"
  "hd ''Target Branch: '' \<notin> set ''Source Branch: ''"
  "line_terminator (CHR 0x0A)"
  by (simp_all add: line_terminator_def)

lemma recover_source:
  assumes "rr_sourceBranch options \<noteq> []"
    and "\<forall>c\<in>set (rr_sourceBranch options). \<not> line_terminator c"
    and "\<not> sublist ''Source Branch: '' (rr_description options)"
  shows "match_label ''Source Branch: '' (review_description options)
           = Some (rr_sourceBranch options)"
proof -
  let ?pre = "dropWhile js_space (CHR 0x0A # rr_description options @ [CHR 0x0A, CHR 0x0A])"
  let ?rest = "CHR 0x0A # ''Target Branch: '' @ rr_targetBranch options @ CHR 0x0A #
     ''Reviewers:'' @
     rev (dropWhile js_space
            (rev (CHR '' '' # reviewers_text (rr_reviewers options) @ CHR 0x0A # ''    '')))"
  have "review_description options =
      ?pre @ (''Source Branch: '' @ rr_sourceBranch options @ ?rest)"
    by (simp add: review_description_shape)
  moreover have "match_label ''Source Branch: ''
        (?pre @ (''Source Branch: '' @ rr_sourceBranch options @ ?rest)) =
      match_label ''Source Branch: '' (''Source Branch: '' @ rr_sourceBranch options @ ?rest)"
    using leading_part [OF labels_facts(1) labels_facts(3) assms(3)]
    by (intro match_label_after_line [OF labels_facts(3)]) auto
  moreover have "match_label ''Source Branch: ''
        (''Source Branch: '' @ rr_sourceBranch options @ ?rest) = Some (rr_sourceBranch options)"
    using assms(1,2) by (intro match_label_hit) (auto simp: line_terminator_def)
  ultimately show ?thesis by (simp only:)
qed

lemma recover_target:
  assumes "rr_targetBranch options \<noteq> []"
    and "\<forall>c\<in>set (rr_targetBranch options). \<not> line_terminator c"
    and "\<not> sublist ''Target Branch: '' (rr_description options)"
    and "\<not> sublist ''Target Branch: '' (rr_sourceBranch options)"
  shows "match_label ''Target Branch: '' (review_description options)
           = Some (rr_targetBranch options)"
proof -
  let ?pre = "dropWhile js_space (CHR 0x0A # rr_description options @ [CHR 0x0A, CHR 0x0A])"
  let ?rest = "CHR 0x0A # ''Reviewers:'' @
     rev (dropWhile js_space
            (rev (CHR '' '' # reviewers_text (rr_reviewers options) @ CHR 0x0A # ''    '')))"
  let ?before = "?pre @ ''Source Branch: '' @ rr_sourceBranch options @ [CHR 0x0A]"
  have shape: "review_description options =
      ?before @ (''Target Branch: '' @ rr_targetBranch options @ ?rest)"
    by (simp add: review_description_shape)
  note pre = leading_part [OF labels_facts(2) labels_facts(4) assms(3)]
  have mid: "\<not> sublist ''Target Branch: '' (''Source Branch: '' @ rr_sourceBranch options)"
    using assms(4) sublist_after_foreign [OF labels_facts(2) labels_facts(5)] by blast
  have "\<not> sublist ''Target Branch: '' (?pre @ ''Source Branch: '' @ rr_sourceBranch options)"
  proof (cases "?pre = []")
    case True
    with mid show ?thesis by simp
  next
    case False
    with pre(1) have "?pre = butlast ?pre @ [CHR 0x0A]"
      by (metis append_butlast_last_id)
    then have eq: "?pre @ ''Source Branch: '' @ rr_sourceBranch options =
        butlast ?pre @ CHR 0x0A # (''Source Branch: '' @ rr_sourceBranch options)"
      by (metis append_Cons append_Nil append_assoc)
    have "\<not> sublist ''Target Branch: '' (butlast ?pre)"
      using pre(2) by (meson sublist_butlast sublist_order.order_trans)
    with mid show ?thesis
      unfolding eq using sublist_without_char [OF labels_facts(4)] by blast
  qed
  then have before: "\<not> sublist ''Target Branch: '' ?before"
    using sublist_without_char [OF labels_facts(4),
        of "?pre @ ''Source Branch: '' @ rr_sourceBranch options" "[]"]
    by simp
  have "match_label ''Target Branch: ''
        (?before @ (''Target Branch: '' @ rr_targetBranch options @ ?rest)) =
      match_label ''Target Branch: '' (''Target Branch: '' @ rr_targetBranch options @ ?rest)"
    using before by (intro match_label_after_line [OF labels_facts(4)]) auto
  moreover have "match_label ''Target Branch: ''
        (''Target Branch: '' @ rr_targetBranch options @ ?rest) = Some (rr_targetBranch options)"
    using assms(1,2) by (intro match_label_hit) (auto simp: line_terminator_def)
  ultimately show ?thesis by (simp only: shape)
qed

lemma Jira_review_branches:
  assumes "JiraClient_normalizeTicket pt = Inr t"
    and "field (field (field pt ''fields'') ''issuetype'') ''name'' = Str ''Review''"
  shows "map_option Inr (sourceBranch t) =
           Some (branch_from ''Source Branch: ''
                   (js_or (field (field pt ''fields'') ''description'') (Str [])))"
    and "map_option Inr (targetBranch t) =
           Some (branch_from ''Target Branch: ''
                   (js_or (field (field pt ''fields'') ''description'') (Str [])))"
  using assms unfolding JiraClient_normalizeTicket_def Let_def
  by (auto simp: bind_err_Inr_iff field_def split: if_splits)

lemma ServiceNow_review_branches:
  assumes "ServiceNowClient_normalizeTicket pt = Inr t"
    and "field pt ''sys_class_name'' = Str ''change_request''"
    and "field pt ''category'' = Str ''Code Review''"
  shows "map_option Inr (sourceBranch t) =
           Some (branch_from ''Source Branch: '' (js_or (field pt ''description'') (Str [])))"
    and "map_option Inr (targetBranch t) =
           Some (branch_from ''Target Branch: '' (js_or (field pt ''description'') (Str [])))"
  using assms unfolding ServiceNowClient_normalizeTicket_def Let_def
  by (auto simp: bind_err_Inr_iff field_def TABLE_CHANGE_REQUEST_def split: if_splits)

lemma review_description_text:
  "review_description quoting_options =
     ''Source Branch: old'' @ [CHR 0x0A, CHR 0x0A] @ ''Source Branch: feat/x'' @ [CHR 0x0A] @
     ''Target Branch: main'' @ [CHR 0x0A] @ ''Reviewers: None assigned''"
  by (simp add: review_description_def quoting_options_def trim_def js_space_def
      reviewers_text_def)

lemma quoting_branch:
  "match_label ''Source Branch: '' (review_description quoting_options) = Some ''old''"
  by (simp add: review_description_text line_terminator_def)

text \<open>
  The round trip fails where the caller's own description already holds a line with the
  source label: the first match of the pattern is that line, and a read of the created
  issue returns the branch old where feat/x was given.
\<close>

theorem review_branch_shadowed:
  "map_sum id sourceBranch
     (JiraClient_normalizeTicket
        (jira_review_record ''In Review'' (review_description quoting_options)))
     = Inr (Some (Str ''old''))
   \<and> rr_sourceBranch quoting_options = ''feat/x''"
proof
  have "review_description quoting_options \<noteq> []"
    by (simp add: review_description_text)
  then show "map_sum id sourceBranch
     (JiraClient_normalizeTicket
        (jira_review_record ''In Review'' (review_description quoting_options)))
     = Inr (Some (Str ''old''))"
    by (simp add: JiraClient_normalizeTicket_def jira_review_record_def bind_err_def js_or_def
        quoting_branch JiraClient_mapJiraStatusToPRState_def lower_literals)
  show "rr_sourceBranch quoting_options = ''feat/x''"
    by (simp add: quoting_options_def)
qed

lemma branch_from_found:
  "match_label label s = Some v \<Longrightarrow> s \<noteq> [] \<Longrightarrow> branch_from label (js_or (Str s) (Str [])) = Inr (Str v)"
  by (simp add: js_or_def)

lemma branch_from_unknown:
  assumes "dv = Undefined \<or> dv = Null \<or> (\<exists>s. dv = Str s \<and> \<not> sublist label s)"
  shows "branch_from label (js_or dv (Str [])) = Inr (Str ''unknown'')"
  using assms by (auto simp: js_or_def match_label_none)

lemma review_description_nonempty: "review_description options \<noteq> []"
  by (simp add: review_description_shape)

lemma ServiceNow_createReviewRequest_calls:
  "calls (snd (ServiceNowClient_createReviewRequest tr this options w)) =
     calls w @ [ServiceNowClient_post (''/table/'' @ TABLE_CHANGE_REQUEST)
                  (ServiceNowClient_review_payload options)]"
  by (simp add: ServiceNowClient_createReviewRequest_def case_prod_beta)

lemma Jira_getTicket_calls:
  "calls (snd (JiraClient_getTicket tr this k w)) = calls w @ [JiraClient_issues_getIssue k]"
  by (simp add: JiraClient_getTicket_def case_prod_beta)

lemma Jira_createReviewRequest_calls:
  "take (Suc (length (calls w)))
     (calls (snd (JiraClient_createReviewRequest tr this options w))) =
     calls w @ [JiraClient_createIssue_review this options]"
proof -
  obtain r w1 where c: "call tr (JiraClient_createIssue_review this options) w = (r, w1)"
    by (cases "call tr (JiraClient_createIssue_review this options) w")
  then have w1: "calls w1 = calls w @ [JiraClient_createIssue_review this options]"
    by (metis calls_call snd_conv)
  have "\<exists>rest. calls (snd (JiraClient_createReviewRequest tr this options w)) = calls w1 @ rest"
    unfolding JiraClient_createReviewRequest_def c Let_def
    by (auto simp: case_prod_beta Jira_getTicket_calls
        split: sum.splits option.splits list.splits prod.splits)
  then show ?thesis
    by (auto simp: w1)
qed

lemma get_prop_field: "v \<noteq> Undefined \<Longrightarrow> v \<noteq> Null \<Longrightarrow> get_prop v k = Inr (field v k)"
  by (cases v) (simp_all add: field_def)

lemma field_parent: "field v k \<noteq> Undefined \<Longrightarrow> v \<noteq> Undefined \<and> v \<noteq> Null"
  by (auto simp: field_def)

lemma truthy_defined: "truthy v \<Longrightarrow> v \<noteq> Undefined \<and> v \<noteq> Null"
  by (cases v) simp_all

lemma branch_from_text:
  assumes "dv = Undefined \<or> dv = Null \<or> (\<exists>s. dv = Str s)"
  shows "\<exists>b. branch_from label (js_or dv (Str [])) = Inr b"
  using assms by (auto simp: js_or_def)

text \<open>A read of a Jira issue of the type Review does not throw where the issue has a
  status name, a reporter, and a description that is absent, null or a text.\<close>

lemma Jira_review_read:
  assumes it: "field (field (field pt ''fields'') ''issuetype'') ''name'' = Str ''Review''"
    and st: "field (field (field pt ''fields'') ''status'') ''name'' = Str name"
    and rp: "field (field pt ''fields'') ''reporter'' \<noteq> Undefined"
      "field (field pt ''fields'') ''reporter'' \<noteq> Null"
    and dv: "field (field pt ''fields'') ''description'' = Undefined \<or>
             field (field pt ''fields'') ''description'' = Null \<or>
             (\<exists>s. field (field pt ''fields'') ''description'' = Str s)"
  shows "\<exists>t. JiraClient_normalizeTicket pt = Inr t"
proof -
  let ?fs = "field pt ''fields''"
  from it have "field (field ?fs ''issuetype'') ''name'' \<noteq> Undefined" by simp
  then have ity: "field ?fs ''issuetype'' \<noteq> Undefined \<and> field ?fs ''issuetype'' \<noteq> Null"
    by (rule field_parent)
  then have fs: "?fs \<noteq> Undefined \<and> ?fs \<noteq> Null"
    using field_parent by blast
  then have pt: "pt \<noteq> Undefined \<and> pt \<noteq> Null"
    using field_parent by blast
  from st have "field (field ?fs ''status'') ''name'' \<noteq> Undefined" by simp
  then have sty: "field ?fs ''status'' \<noteq> Undefined \<and> field ?fs ''status'' \<noteq> Null"
    by (rule field_parent)
  from branch_from_text [OF dv] obtain src tgt where
    b: "branch_from ''Source Branch: '' (js_or (field ?fs ''description'') (Str [])) = Inr src"
       "branch_from ''Target Branch: '' (js_or (field ?fs ''description'') (Str [])) = Inr tgt"
    by blast
  have g: "\<And>k. get_prop pt k = Inr (field pt k)" "\<And>k. get_prop ?fs k = Inr (field ?fs k)"
    "\<And>k. get_prop (field ?fs ''issuetype'') k = Inr (field (field ?fs ''issuetype'') k)"
    "\<And>k. get_prop (field ?fs ''status'') k = Inr (field (field ?fs ''status'') k)"
    "\<And>k. get_prop (field ?fs ''reporter'') k = Inr (field (field ?fs ''reporter'') k)"
    "\<And>k. truthy (field ?fs ''assignee'') \<Longrightarrow>
        get_prop (field ?fs ''assignee'') k = Inr (field (field ?fs ''assignee'') k)"
    using pt fs ity sty rp truthy_defined by (simp_all add: get_prop_field)
  show ?thesis
    unfolding JiraClient_normalizeTicket_def
    by (simp add: g bind_err_def it st b Let_def JiraClient_mapJiraStatusToPRState_def)
qed

text \<open>A read of a ServiceNow change request of the category Code Review does not throw
  where the state is a text and the description is absent, null or a text.\<close>

lemma ServiceNow_review_read:
  assumes cl: "field pt ''sys_class_name'' = Str ''change_request''"
    and ca: "field pt ''category'' = Str ''Code Review''"
    and st: "field pt ''state'' = Str code"
    and dv: "field pt ''description'' = Undefined \<or> field pt ''description'' = Null \<or>
             (\<exists>s. field pt ''description'' = Str s)"
  shows "\<exists>t. ServiceNowClient_normalizeTicket pt = Inr t"
proof -
  from cl have "field pt ''sys_class_name'' \<noteq> Undefined" by simp
  then have pt: "pt \<noteq> Undefined \<and> pt \<noteq> Null"
    by (rule field_parent)
  from branch_from_text [OF dv] obtain src tgt where
    b: "branch_from ''Source Branch: '' (js_or (field pt ''description'') (Str [])) = Inr src"
       "branch_from ''Target Branch: '' (js_or (field pt ''description'') (Str [])) = Inr tgt"
    by blast
  have g: "\<And>k. get_prop pt k = Inr (field pt k)"
    "\<And>k. truthy (field pt ''assigned_to'') \<Longrightarrow>
        get_prop (field pt ''assigned_to'') k = Inr (field (field pt ''assigned_to'') k)"
    using pt truthy_defined by (simp_all add: get_prop_field)
  have "\<exists>v. ServiceNowClient_normalizeStatus (Str code) = Inr v"
    by (simp add: ServiceNowClient_normalizeStatus_def bind_err_def Let_def)
  then obtain v where v: "ServiceNowClient_normalizeStatus (Str code) = Inr v" by blast
  show ?thesis
    unfolding ServiceNowClient_normalizeTicket_def
    by (simp add: g bind_err_def cl ca st b v Let_def TABLE_CHANGE_REQUEST_def)
qed

lemma dropWhile_before:
  "ys \<noteq> [] \<Longrightarrow> \<not> P (hd ys) \<Longrightarrow>
     dropWhile P (xs @ ys) = (if \<forall>x\<in>set xs. P x then ys else dropWhile P xs @ ys)"
  by (induction xs) (auto simp: neq_Nil_conv)

lemma leading_description:
  "dropWhile js_space (CHR 0x0A # d @ [CHR 0x0A, CHR 0x0A]) =
     (if \<forall>c\<in>set d. js_space c then [] else dropWhile js_space d @ [CHR 0x0A, CHR 0x0A])"
proof -
  have nl: "js_space (CHR 0x0A)"
    by (simp add: js_space_def)
  show ?thesis
  proof (cases "\<forall>c\<in>set d. js_space c")
    case True
    then show ?thesis
      by (simp add: nl dropWhile_append2)
  next
    case False
    then show ?thesis
      by (auto simp: nl dropWhile_append1)
  qed
qed

lemma trailing_reviewers:
  "''Reviewers:'' @ rev (dropWhile js_space (rev (CHR '' '' # r @ CHR 0x0A # ''    ''))) =
     rev (dropWhile js_space (rev (''Reviewers: '' @ r)))"
proof -
  have sp: "js_space (CHR 0x0A)" "js_space (CHR '' '')" "\<not> js_space (CHR '':'')"
    by (simp_all add: js_space_def)
  have "dropWhile js_space (rev (CHR '' '' # r @ CHR 0x0A # ''    '')) =
        dropWhile js_space (rev r @ [CHR '' ''])"
    by (simp add: sp)
  moreover have "dropWhile js_space (rev (''Reviewers: '' @ r)) =
        dropWhile js_space ((rev r @ [CHR '' '']) @ rev ''Reviewers:'')"
    by simp
  moreover have "dropWhile js_space ((rev r @ [CHR '' '']) @ rev ''Reviewers:'') =
        (if \<forall>x\<in>set (rev r @ [CHR '' '']). js_space x then rev ''Reviewers:''
         else dropWhile js_space (rev r @ [CHR '' '']) @ rev ''Reviewers:'')"
    by (rule dropWhile_before) (simp_all add: sp)
  moreover have "(\<forall>x\<in>set (rev r @ [CHR '' '']). js_space x) \<Longrightarrow>
        dropWhile js_space (rev r @ [CHR '' '']) = []"
    by simp
  ultimately show ?thesis
    by (simp only: rev_append rev_rev_ident split: if_splits) auto
qed

text \<open>The description that createReviewRequest sends, written out: the caller's
  description without its leading white space and an empty line, both left out where the
  caller's description is white space only; the two branch lines; the reviewers line
  without its trailing white space.\<close>

lemma review_description_lines:
  "review_description options =
     (if \<forall>c\<in>set (rr_description options). js_space c then []
      else dropWhile js_space (rr_description options) @ [CHR 0x0A, CHR 0x0A]) @
     ''Source Branch: '' @ rr_sourceBranch options @ CHR 0x0A #
     ''Target Branch: '' @ rr_targetBranch options @ CHR 0x0A #
     rev (dropWhile js_space (rev (''Reviewers: '' @ reviewers_text (rr_reviewers options))))"
  unfolding review_description_shape leading_description
  by (simp only: trailing_reviewers [symmetric])

text \<open>
  C2, as amended. createReviewRequest of the Jira and ServiceNow adapters sends, as the
  description of the issue it creates (issues.createIssue, type Review) or of the change
  request it posts (post on the change_request table, category Code Review), the
  caller's description without its leading white space, an empty line, the line Source
  Branch: with the source branch, the line Target Branch: with the target branch, and
  the reviewers line; the caller's description and the empty line are left out where
  that description is white space only. A read that classifies the record as a review
  request recovers both branches exactly as given, provided that both are non-empty and
  free of line terminators, that the caller's description contains neither label, and
  that the source branch does not contain the target label. Where the description is
  absent, null or a text without the labels, the read gives unknown for both branches.
  In both cases the read returns a ticket and does not throw where the record has the
  fields the read needs: on Jira a status name and a reporter, on ServiceNow a state
  that is a text.
\<close>

theorem review_branches_round_trip:
  "review_description options =
     (if \<forall>c\<in>set (rr_description options). js_space c then []
      else dropWhile js_space (rr_description options) @ [CHR 0x0A, CHR 0x0A]) @
     ''Source Branch: '' @ rr_sourceBranch options @ CHR 0x0A #
     ''Target Branch: '' @ rr_targetBranch options @ CHR 0x0A #
     rev (dropWhile js_space (rev (''Reviewers: '' @ reviewers_text (rr_reviewers options))))
   \<and> take (Suc (length (calls w)))
       (calls (snd (JiraClient_createReviewRequest tr jira options w))) =
       calls w @
       [Request ''issues.createIssue''
          [Fields [(''fields'',
             Fields [(''project'', Fields [(''key'', Value (jira_projectKey jira))]),
                     (''summary'', Text (rr_title options)),
                     (''description'', Text (review_description options)),
                     (''issuetype'', Fields [(''name'', Text ''Review'')]),
                     (''labels'',
                        Items (map Text
                          ((case rr_labels options of None \<Rightarrow> [] | Some ls \<Rightarrow> ls) @
                           [''code-review''])))])]]]
   \<and> calls (snd (ServiceNowClient_createReviewRequest tr servicenow options w)) =
       calls w @
       [Request ''post''
          [Text ''/table/change_request'',
           Fields [(''short_description'', Text (rr_title options)),
                   (''description'', Text (review_description options)),
                   (''type'', Text ''normal''),
                   (''category'', Text ''Code Review''),
                   (''assigned_to'',
                      case rr_reviewers options of Some (r # rs) \<Rightarrow> Text r | _ \<Rightarrow> Absent),
                   (''watch_list'',
                      case rr_reviewers options of
                        None \<Rightarrow> Absent
                      | Some rs \<Rightarrow> Text (join_with '','' (tl rs)))]]]
   \<and> (rr_sourceBranch options \<noteq> [] \<and> rr_targetBranch options \<noteq> [] \<and>
       (\<forall>c\<in>set (rr_sourceBranch options @ rr_targetBranch options). \<not> line_terminator c) \<and>
       \<not> sublist ''Source Branch: '' (rr_description options) \<and>
       \<not> sublist ''Target Branch: '' (rr_description options) \<and>
       \<not> sublist ''Target Branch: '' (rr_sourceBranch options) \<longrightarrow>
       (JiraClient_normalizeTicket issue = Inr t \<and>
        field (field (field issue ''fields'') ''issuetype'') ''name'' = Str ''Review'' \<and>
        field (field issue ''fields'') ''description'' = Str (review_description options) \<longrightarrow>
          sourceBranch t = Some (Str (rr_sourceBranch options)) \<and>
          targetBranch t = Some (Str (rr_targetBranch options))) \<and>
       (ServiceNowClient_normalizeTicket change = Inr t' \<and>
        field change ''sys_class_name'' = Str ''change_request'' \<and>
        field change ''category'' = Str ''Code Review'' \<and>
        field change ''description'' = Str (review_description options) \<longrightarrow>
          sourceBranch t' = Some (Str (rr_sourceBranch options)) \<and>
          targetBranch t' = Some (Str (rr_targetBranch options))) \<and>
       (field (field (field issue ''fields'') ''issuetype'') ''name'' = Str ''Review'' \<and>
        field (field issue ''fields'') ''description'' = Str (review_description options) \<and>
        field (field (field issue ''fields'') ''status'') ''name'' = Str status_name \<and>
        field (field issue ''fields'') ''reporter'' \<noteq> Undefined \<and>
        field (field issue ''fields'') ''reporter'' \<noteq> Null \<longrightarrow>
          (\<exists>read. JiraClient_normalizeTicket issue = Inr read \<and>
             sourceBranch read = Some (Str (rr_sourceBranch options)) \<and>
             targetBranch read = Some (Str (rr_targetBranch options)))) \<and>
       (field change ''sys_class_name'' = Str ''change_request'' \<and>
        field change ''category'' = Str ''Code Review'' \<and>
        field change ''description'' = Str (review_description options) \<and>
        field change ''state'' = Str state_code \<longrightarrow>
          (\<exists>read. ServiceNowClient_normalizeTicket change = Inr read \<and>
             sourceBranch read = Some (Str (rr_sourceBranch options)) \<and>
             targetBranch read = Some (Str (rr_targetBranch options)))))
   \<and> ((dv = Undefined \<or> dv = Null \<or>
        (\<exists>s. dv = Str s \<and> \<not> sublist ''Source Branch: '' s \<and> \<not> sublist ''Target Branch: '' s)) \<longrightarrow>
       (JiraClient_normalizeTicket issue = Inr t \<and>
        field (field (field issue ''fields'') ''issuetype'') ''name'' = Str ''Review'' \<and>
        field (field issue ''fields'') ''description'' = dv \<longrightarrow>
          sourceBranch t = Some (Str ''unknown'') \<and> targetBranch t = Some (Str ''unknown'')) \<and>
       (ServiceNowClient_normalizeTicket change = Inr t' \<and>
        field change ''sys_class_name'' = Str ''change_request'' \<and>
        field change ''category'' = Str ''Code Review'' \<and>
        field change ''description'' = dv \<longrightarrow>
          sourceBranch t' = Some (Str ''unknown'') \<and> targetBranch t' = Some (Str ''unknown'')) \<and>
       (field (field (field issue ''fields'') ''issuetype'') ''name'' = Str ''Review'' \<and>
        field (field issue ''fields'') ''description'' = dv \<and>
        field (field (field issue ''fields'') ''status'') ''name'' = Str status_name \<and>
        field (field issue ''fields'') ''reporter'' \<noteq> Undefined \<and>
        field (field issue ''fields'') ''reporter'' \<noteq> Null \<longrightarrow>
          (\<exists>read. JiraClient_normalizeTicket issue = Inr read \<and>
             sourceBranch read = Some (Str ''unknown'') \<and>
             targetBranch read = Some (Str ''unknown''))) \<and>
       (field change ''sys_class_name'' = Str ''change_request'' \<and>
        field change ''category'' = Str ''Code Review'' \<and>
        field change ''description'' = dv \<and>
        field change ''state'' = Str state_code \<longrightarrow>
          (\<exists>read. ServiceNowClient_normalizeTicket change = Inr read \<and>
             sourceBranch read = Some (Str ''unknown'') \<and>
             targetBranch read = Some (Str ''unknown''))))"
proof (intro conjI impI)
  show "review_description options =
     (if \<forall>c\<in>set (rr_description options). js_space c then []
      else dropWhile js_space (rr_description options) @ [CHR 0x0A, CHR 0x0A]) @
     ''Source Branch: '' @ rr_sourceBranch options @ CHR 0x0A #
     ''Target Branch: '' @ rr_targetBranch options @ CHR 0x0A #
     rev (dropWhile js_space (rev (''Reviewers: '' @ reviewers_text (rr_reviewers options))))"
    by (rule review_description_lines)
next
  show "take (Suc (length (calls w)))
       (calls (snd (JiraClient_createReviewRequest tr jira options w))) =
       calls w @
       [Request ''issues.createIssue''
          [Fields [(''fields'',
             Fields [(''project'', Fields [(''key'', Value (jira_projectKey jira))]),
                     (''summary'', Text (rr_title options)),
                     (''description'', Text (review_description options)),
                     (''issuetype'', Fields [(''name'', Text ''Review'')]),
                     (''labels'',
                        Items (map Text
                          ((case rr_labels options of None \<Rightarrow> [] | Some ls \<Rightarrow> ls) @
                           [''code-review''])))])]]]"
    using Jira_createReviewRequest_calls [of w tr jira options]
    by (simp only: JiraClient_createIssue_review_def JiraClient_review_fields_def)
next
  show "calls (snd (ServiceNowClient_createReviewRequest tr servicenow options w)) =
       calls w @
       [Request ''post''
          [Text ''/table/change_request'',
           Fields [(''short_description'', Text (rr_title options)),
                   (''description'', Text (review_description options)),
                   (''type'', Text ''normal''),
                   (''category'', Text ''Code Review''),
                   (''assigned_to'',
                      case rr_reviewers options of Some (r # rs) \<Rightarrow> Text r | _ \<Rightarrow> Absent),
                   (''watch_list'',
                      case rr_reviewers options of
                        None \<Rightarrow> Absent
                      | Some rs \<Rightarrow> Text (join_with '','' (tl rs)))]]]"
    using ServiceNow_createReviewRequest_calls [of tr servicenow options w]
    by (simp add: ServiceNowClient_post_def ServiceNowClient_review_payload_def
        TABLE_CHANGE_REQUEST_def)
next
  assume wf: "rr_sourceBranch options \<noteq> [] \<and> rr_targetBranch options \<noteq> [] \<and>
       (\<forall>c\<in>set (rr_sourceBranch options @ rr_targetBranch options). \<not> line_terminator c) \<and>
       \<not> sublist ''Source Branch: '' (rr_description options) \<and>
       \<not> sublist ''Target Branch: '' (rr_description options) \<and>
       \<not> sublist ''Target Branch: '' (rr_sourceBranch options)"
  then have src: "match_label ''Source Branch: '' (review_description options)
           = Some (rr_sourceBranch options)"
    and tgt: "match_label ''Target Branch: '' (review_description options)
           = Some (rr_targetBranch options)"
    by (auto intro!: recover_source recover_target)
  note found = branch_from_found [OF src review_description_nonempty]
    branch_from_found [OF tgt review_description_nonempty]
  {
    assume a: "JiraClient_normalizeTicket issue = Inr t \<and>
        field (field (field issue ''fields'') ''issuetype'') ''name'' = Str ''Review'' \<and>
        field (field issue ''fields'') ''description'' = Str (review_description options)"
    with Jira_review_branches [of issue t] found
    show "sourceBranch t = Some (Str (rr_sourceBranch options))"
      and "targetBranch t = Some (Str (rr_targetBranch options))"
      by auto
  }
  {
    assume a: "ServiceNowClient_normalizeTicket change = Inr t' \<and>
        field change ''sys_class_name'' = Str ''change_request'' \<and>
        field change ''category'' = Str ''Code Review'' \<and>
        field change ''description'' = Str (review_description options)"
    with ServiceNow_review_branches [of change t'] found
    show "sourceBranch t' = Some (Str (rr_sourceBranch options))"
      and "targetBranch t' = Some (Str (rr_targetBranch options))"
      by auto
  }
  {
    assume a: "field (field (field issue ''fields'') ''issuetype'') ''name'' = Str ''Review'' \<and>
        field (field issue ''fields'') ''description'' = Str (review_description options) \<and>
        field (field (field issue ''fields'') ''status'') ''name'' = Str status_name \<and>
        field (field issue ''fields'') ''reporter'' \<noteq> Undefined \<and>
        field (field issue ''fields'') ''reporter'' \<noteq> Null"
    then obtain read where r: "JiraClient_normalizeTicket issue = Inr read"
      using Jira_review_read [of issue status_name] by auto
    with Jira_review_branches [of issue read] found a
    show "\<exists>read. JiraClient_normalizeTicket issue = Inr read \<and>
             sourceBranch read = Some (Str (rr_sourceBranch options)) \<and>
             targetBranch read = Some (Str (rr_targetBranch options))"
      by auto
  }
  {
    assume a: "field change ''sys_class_name'' = Str ''change_request'' \<and>
        field change ''category'' = Str ''Code Review'' \<and>
        field change ''description'' = Str (review_description options) \<and>
        field change ''state'' = Str state_code"
    then obtain read where r: "ServiceNowClient_normalizeTicket change = Inr read"
      using ServiceNow_review_read [of change state_code] by auto
    with ServiceNow_review_branches [of change read] found a
    show "\<exists>read. ServiceNowClient_normalizeTicket change = Inr read \<and>
             sourceBranch read = Some (Str (rr_sourceBranch options)) \<and>
             targetBranch read = Some (Str (rr_targetBranch options))"
      by auto
  }
next
  assume none: "dv = Undefined \<or> dv = Null \<or>
        (\<exists>s. dv = Str s \<and> \<not> sublist ''Source Branch: '' s \<and> \<not> sublist ''Target Branch: '' s)"
  then have u: "branch_from ''Source Branch: '' (js_or dv (Str [])) = Inr (Str ''unknown'')"
    "branch_from ''Target Branch: '' (js_or dv (Str [])) = Inr (Str ''unknown'')"
    by (auto intro!: branch_from_unknown)
  from none have plain: "dv = Undefined \<or> dv = Null \<or> (\<exists>s. dv = Str s)"
    by blast
  {
    assume a: "JiraClient_normalizeTicket issue = Inr t \<and>
        field (field (field issue ''fields'') ''issuetype'') ''name'' = Str ''Review'' \<and>
        field (field issue ''fields'') ''description'' = dv"
    with Jira_review_branches [of issue t] u
    show "sourceBranch t = Some (Str ''unknown'')" and "targetBranch t = Some (Str ''unknown'')"
      by auto
  }
  {
    assume a: "ServiceNowClient_normalizeTicket change = Inr t' \<and>
        field change ''sys_class_name'' = Str ''change_request'' \<and>
        field change ''category'' = Str ''Code Review'' \<and>
        field change ''description'' = dv"
    with ServiceNow_review_branches [of change t'] u
    show "sourceBranch t' = Some (Str ''unknown'')" and "targetBranch t' = Some (Str ''unknown'')"
      by auto
  }
  {
    assume a: "field (field (field issue ''fields'') ''issuetype'') ''name'' = Str ''Review'' \<and>
        field (field issue ''fields'') ''description'' = dv \<and>
        field (field (field issue ''fields'') ''status'') ''name'' = Str status_name \<and>
        field (field issue ''fields'') ''reporter'' \<noteq> Undefined \<and>
        field (field issue ''fields'') ''reporter'' \<noteq> Null"
    then obtain read where r: "JiraClient_normalizeTicket issue = Inr read"
      using Jira_review_read [of issue status_name] plain by auto
    with Jira_review_branches [of issue read] u a
    show "\<exists>read. JiraClient_normalizeTicket issue = Inr read \<and>
             sourceBranch read = Some (Str ''unknown'') \<and>
             targetBranch read = Some (Str ''unknown'')"
      by auto
  }
  {
    assume a: "field change ''sys_class_name'' = Str ''change_request'' \<and>
        field change ''category'' = Str ''Code Review'' \<and>
        field change ''description'' = dv \<and>
        field change ''state'' = Str state_code"
    then obtain read where r: "ServiceNowClient_normalizeTicket change = Inr read"
      using ServiceNow_review_read [of change state_code] plain by auto
    with ServiceNow_review_branches [of change read] u a
    show "\<exists>read. ServiceNowClient_normalizeTicket change = Inr read \<and>
             sourceBranch read = Some (Str ''unknown'') \<and>
             targetBranch read = Some (Str ''unknown'')"
      by auto
  }
qed

subsection \<open>Status filters\<close>

lemma mapStatusToServiceNow_unknown:
  assumes "toLowerCase s \<notin> set shared_vocabulary"
    and "toLowerCase s \<notin> set object_prototype_members"
  shows "ServiceNowClient_mapStatusToServiceNow s = Val (Str ''1'')"
  using assms
  by (simp add: ServiceNowClient_mapStatusToServiceNow_def literal_get_def Let_def
      mapStatusToServiceNow_stateMap_def shared_vocabulary_def)

lemma mapStatus_unknown:
  assumes "toLowerCase s \<notin> set shared_vocabulary"
  shows "GitLabClient_mapStatus (Some s) = None"
  using assms by (simp add: GitLabClient_mapStatus_def shared_vocabulary_def)

lemma GitHub_getTickets_calls:
  "calls (snd (GitHubClient_getTickets tr this options w)) =
     calls w @ [GitHubClient_issues_listForRepo this options]"
  by (simp add: GitHubClient_getTickets_def case_prod_beta)

lemma GitLab_getTickets_calls:
  "calls (snd (GitLabClient_getTickets tr this options w)) =
     calls w @ [GitLabClient_Issues_all this options]"
  by (simp add: GitLabClient_getTickets_def case_prod_beta)

lemma Jira_getTickets_calls:
  "JiraClient_jql this options = Inr jql \<Longrightarrow>
   calls (snd (JiraClient_getTickets tr this options w)) =
     calls w @ [JiraClient_searchForIssuesUsingJql jql]"
  by (simp add: JiraClient_getTickets_def case_prod_beta)

lemma ServiceNow_getTickets_calls:
  "ServiceNowClient_query options = Inr query \<Longrightarrow>
   calls (snd (ServiceNowClient_getTickets tr this options w)) =
     calls w @ [ServiceNowClient_get (''/table/'' @ TABLE_INCIDENT @ query),
                ServiceNowClient_get (''/table/'' @ TABLE_CHANGE_REQUEST @ query)]"
  by (simp add: ServiceNowClient_getTickets_def case_prod_beta)

lemma ServiceNow_query_unknown:
  assumes "s \<noteq> []" and "toLowerCase s \<notin> set shared_vocabulary"
    and "toLowerCase s \<notin> set object_prototype_members"
  shows "ServiceNowClient_query (Some \<lparr>filter_status = Some s, filter_assigneeId = None\<rparr>)
           = Inr ''?sysparm_query=state=1''"
  using assms
  by (simp add: ServiceNowClient_query_def status_of_def assigneeId_of_def bind_err_def
      mapStatusToServiceNow_unknown)

text \<open>
  C6, as amended. Let the status filter of getTickets be a non-empty string whose lower
  case form is outside the shared vocabulary (and is not the name of a member the
  ServiceNow table inherits). No adapter fails before its remote call. GitLab omits the
  state term: the request is the one without a status filter. ServiceNow does not omit
  it: it queries state=1, as for the status new. Jira and GitHub pass the caller's value
  through unchanged, as status = "value" in the JQL and as the state parameter.
\<close>

theorem getTickets_unrecognized_status:
  assumes "s \<noteq> []" and "toLowerCase s \<notin> set shared_vocabulary"
    and "toLowerCase s \<notin> set object_prototype_members"
  shows
   "GitLabClient_Issues_all gitlab (Some \<lparr>filter_status = Some s, filter_assigneeId = a\<rparr>) =
      GitLabClient_Issues_all gitlab (Some \<lparr>filter_status = None, filter_assigneeId = a\<rparr>)
  \<and> calls (snd (GitLabClient_getTickets tr gitlab
               (Some \<lparr>filter_status = Some s, filter_assigneeId = a\<rparr>) w)) =
      calls w @ [GitLabClient_Issues_all gitlab
                   (Some \<lparr>filter_status = None, filter_assigneeId = a\<rparr>)]
  \<and> ServiceNowClient_query (Some \<lparr>filter_status = Some s, filter_assigneeId = None\<rparr>) =
      Inr ''?sysparm_query=state=1''
  \<and> ServiceNowClient_query (Some \<lparr>filter_status = Some s, filter_assigneeId = a\<rparr>) =
      ServiceNowClient_query (Some \<lparr>filter_status = Some ''new'', filter_assigneeId = a\<rparr>)
  \<and> calls (snd (ServiceNowClient_getTickets tr servicenow
               (Some \<lparr>filter_status = Some s, filter_assigneeId = None\<rparr>) w)) =
      calls w @ [ServiceNowClient_get ''/table/incident?sysparm_query=state=1'',
                 ServiceNowClient_get ''/table/change_request?sysparm_query=state=1'']
  \<and> JiraClient_jql jira (Some \<lparr>filter_status = Some s, filter_assigneeId = None\<rparr>) =
      map_sum id (\<lambda>projectKey.
          ''project = '' @ projectKey @ '' AND status = '' @ [CHR 0x22] @ s @ [CHR 0x22])
        (to_string (jira_projectKey jira))
  \<and> (to_string (jira_projectKey jira) = Inr projectKey \<longrightarrow>
       calls (snd (JiraClient_getTickets tr jira
                (Some \<lparr>filter_status = Some s, filter_assigneeId = None\<rparr>) w)) =
       calls w @ [JiraClient_searchForIssuesUsingJql
                    (''project = '' @ projectKey @ '' AND status = '' @ [CHR 0x22] @ s @ [CHR 0x22])])
  \<and> GitHubClient_issues_listForRepo github
       (Some \<lparr>filter_status = Some s, filter_assigneeId = a\<rparr>) =
      Request ''issues.listForRepo''
        [Fields [(''owner'', Value (gh_owner github)), (''repo'', Value (gh_repo github)),
                 (''state'', Text s), (''assignee'', opt_text a)]]
  \<and> calls (snd (GitHubClient_getTickets tr github
               (Some \<lparr>filter_status = Some s, filter_assigneeId = a\<rparr>) w)) =
      calls w @ [Request ''issues.listForRepo''
        [Fields [(''owner'', Value (gh_owner github)), (''repo'', Value (gh_repo github)),
                 (''state'', Text s), (''assignee'', opt_text a)]]]"
proof -
  have gl: "GitLabClient_Issues_all gitlab (Some \<lparr>filter_status = Some s, filter_assigneeId = a\<rparr>) =
      GitLabClient_Issues_all gitlab (Some \<lparr>filter_status = None, filter_assigneeId = a\<rparr>)"
    using mapStatus_unknown [OF assms(2)]
    by (simp add: GitLabClient_Issues_all_def status_of_def assigneeId_of_def)
       (simp add: GitLabClient_mapStatus_def)
  have q: "ServiceNowClient_query (Some \<lparr>filter_status = Some s, filter_assigneeId = None\<rparr>) =
      Inr ''?sysparm_query=state=1''"
    using assms by (rule ServiceNow_query_unknown)
  have q2: "ServiceNowClient_query (Some \<lparr>filter_status = Some s, filter_assigneeId = a\<rparr>) =
      ServiceNowClient_query (Some \<lparr>filter_status = Some ''new'', filter_assigneeId = a\<rparr>)"
    using assms
    by (simp add: ServiceNowClient_query_def status_of_def assigneeId_of_def
        mapStatusToServiceNow_unknown)
       (simp add: ServiceNowClient_mapStatusToServiceNow_def literal_get_def
        mapStatusToServiceNow_stateMap_def toLowerCase_def lower_char_def upper_chars_def
        lower_chars_def)
  have j: "JiraClient_jql jira (Some \<lparr>filter_status = Some s, filter_assigneeId = None\<rparr>) =
      map_sum id (\<lambda>projectKey.
          ''project = '' @ projectKey @ '' AND status = '' @ [CHR 0x22] @ s @ [CHR 0x22])
        (to_string (jira_projectKey jira))"
    using assms(1)
    by (cases "to_string (jira_projectKey jira)")
       (simp_all add: JiraClient_jql_def status_of_def assigneeId_of_def bind_err_def)
  have gh: "GitHubClient_issues_listForRepo github
       (Some \<lparr>filter_status = Some s, filter_assigneeId = a\<rparr>) =
      Request ''issues.listForRepo''
        [Fields [(''owner'', Value (gh_owner github)), (''repo'', Value (gh_repo github)),
                 (''state'', Text s), (''assignee'', opt_text a)]]"
    using assms(1)
    by (simp add: GitHubClient_issues_listForRepo_def status_of_def assigneeId_of_def)
  show ?thesis
    using gl q q2 j gh
    by (simp add: GitLab_getTickets_calls GitHub_getTickets_calls
        ServiceNow_getTickets_calls [OF q] Jira_getTickets_calls
        TABLE_INCIDENT_def TABLE_CHANGE_REQUEST_def)
qed

lemma lower_bogus: "toLowerCase ''bogus'' = ''bogus''"
  by (simp add: toLowerCase_def lower_char_def upper_chars_def lower_chars_def)

text \<open>
  With the status bogus the ServiceNow adapter reads both tables with the query
  state=1; without a filter the query is empty.
\<close>

theorem ServiceNow_bogus_status_queried:
  "calls (snd (ServiceNowClient_getTickets (answering (Obj [(''result'', Arr [])])) now_client
                 bogus_filter start)) =
     [ServiceNowClient_get ''/table/incident?sysparm_query=state=1'',
      ServiceNowClient_get ''/table/change_request?sysparm_query=state=1'']
   \<and> ServiceNowClient_query bogus_filter = Inr ''?sysparm_query=state=1''
   \<and> ServiceNowClient_query None = Inr []"
proof -
  have q: "ServiceNowClient_query bogus_filter = Inr ''?sysparm_query=state=1''"
    by (simp add: ServiceNowClient_query_def bogus_filter_def status_of_def assigneeId_of_def
        bind_err_def ServiceNowClient_mapStatusToServiceNow_def literal_get_def lower_bogus
        mapStatusToServiceNow_stateMap_def object_prototype_members_def)
  have "ServiceNowClient_query None = Inr []"
    by (simp add: ServiceNowClient_query_def status_of_def assigneeId_of_def bind_err_def)
  with q show ?thesis
    by (simp add: ServiceNow_getTickets_calls [OF q] start_def TABLE_INCIDENT_def
        TABLE_CHANGE_REQUEST_def)
qed

theorem getTickets_unrecognized_status_witness:
  "GitLabClient_Issues_all lab_client bogus_filter =
     Request ''Issues.all''
       [Fields [(''projectId'', Value (Num 42)), (''state'', Absent), (''assigneeId'', Absent)]]
   \<and> JiraClient_jql jira_client_prj bogus_filter =
       Inr (''project = PRJ AND status = '' @ [CHR 0x22] @ ''bogus'' @ [CHR 0x22])
   \<and> GitHubClient_issues_listForRepo octo_client bogus_filter =
       Request ''issues.listForRepo''
         [Fields [(''owner'', Value (Str ''o'')), (''repo'', Value (Str ''r'')),
                  (''state'', Text ''bogus''), (''assignee'', Absent)]]
   \<and> ServiceNowClient_query bogus_filter = Inr ''?sysparm_query=state=1''"
proof -
  have h: "''bogus'' \<noteq> []" "toLowerCase ''bogus'' \<notin> set shared_vocabulary"
    "toLowerCase ''bogus'' \<notin> set object_prototype_members"
    by (simp_all add: lower_bogus shared_vocabulary_def object_prototype_members_def)
  from getTickets_unrecognized_status [OF h, of lab_client None "answering Null" start
      now_client jira_client_prj "''PRJ''" octo_client]
  show ?thesis
    by (simp add: bogus_filter_def lab_client_def jira_client_prj_def octo_client_def
        GitLabClient_Issues_all_def status_of_def assigneeId_of_def GitLabClient_mapStatus_def)
qed

subsection \<open>Status and state of returned tickets\<close>














subsection \<open>The round trip and the returned state on example records\<close>

lemma review_description_example:
  "review_description review_options =
     ''Adds the parser.'' @ [CHR 0x0A, CHR 0x0A] @ ''Source Branch: feat/x'' @ [CHR 0x0A] @
     ''Target Branch: main'' @ [CHR 0x0A] @ ''Reviewers: None assigned''"
  by (simp add: review_description_def review_options_def trim_def js_space_def
      reviewers_text_def)

lemma example_branches:
  "match_label ''Source Branch: '' (review_description review_options) = Some ''feat/x''"
  "match_label ''Target Branch: '' (review_description review_options) = Some ''main''"
  by (simp_all add: review_description_example line_terminator_def)

lemma normalize_jira_example:
  "JiraClient_normalizeTicket (jira_review_record ''In Review'' (review_description review_options)) =
     Inr (StandardPullRequest
       \<lparr>ticket_id = Str ''PRJ-7'', title = Str ''Add parser'',
        description = Str (review_description review_options),
        createdAt = Str ''2024-03-01T10:00:00.000+0000'',
        updatedAt = Str ''2024-03-02T10:00:00.000+0000'',
        status = Val (Str ''in review''),
        author = \<lparr>person_id = Str ''5b10'', person_name = Str ''Ada''\<rparr>, assignee = None\<rparr>
       (Str ''feat/x'') (Str ''main'') (Str ''open''))"
proof -
  have "review_description review_options \<noteq> []"
    by (rule review_description_nonempty)
  then show ?thesis
    by (simp add: JiraClient_normalizeTicket_def jira_review_record_def bind_err_def js_or_def
        example_branches JiraClient_mapJiraStatusToPRState_def lower_literals)
qed

lemma normalize_jira_plain:
  "JiraClient_normalizeTicket (jira_review_record ''Done'' ''Reviewed by hand'') =
     Inr (StandardPullRequest
       \<lparr>ticket_id = Str ''PRJ-7'', title = Str ''Add parser'',
        description = Str ''Reviewed by hand'',
        createdAt = Str ''2024-03-01T10:00:00.000+0000'',
        updatedAt = Str ''2024-03-02T10:00:00.000+0000'',
        status = Val (Str ''done''),
        author = \<lparr>person_id = Str ''5b10'', person_name = Str ''Ada''\<rparr>, assignee = None\<rparr>
       (Str ''unknown'') (Str ''unknown'') (Str ''merged''))"
  by (simp add: JiraClient_normalizeTicket_def jira_review_record_def bind_err_def js_or_def
      JiraClient_mapJiraStatusToPRState_def lower_literals line_terminator_def)

lemma normalize_servicenow_example:
  "ServiceNowClient_normalizeTicket
     (servicenow_record ''change_request'' ''Code Review'' ''6'' (review_description review_options)) =
     Inr (StandardPullRequest
       \<lparr>ticket_id = Str ''46d44a5dc0a8010e'', title = Str ''Add parser'',
        description = Str (review_description review_options),
        createdAt = Str ''2024-03-01 10:00:00'', updatedAt = Str ''2024-03-02 10:00:00'',
        status = Val (Str ''resolved''),
        author = \<lparr>person_id = Str ''ada'', person_name = Str ''ada''\<rparr>, assignee = None\<rparr>
       (Str ''feat/x'') (Str ''main'') (Str ''merged''))"
proof -
  have "review_description review_options \<noteq> []"
    by (rule review_description_nonempty)
  then show ?thesis
    by (simp add: ServiceNowClient_normalizeTicket_def servicenow_record_def bind_err_def
        js_or_def example_branches ServiceNowClient_normalizeStatus_def literal_get_def
        normalizeStatus_stateMap_def TABLE_CHANGE_REQUEST_def
        ServiceNowClient_mapServiceNowStateToPRState_def)
qed

theorem review_branches_round_trip_witness:
  "map_sum id sourceBranch
     (JiraClient_normalizeTicket
        (jira_review_record ''In Review'' (review_description review_options)))
     = Inr (Some (Str ''feat/x''))
   \<and> map_sum id targetBranch
     (JiraClient_normalizeTicket
        (jira_review_record ''In Review'' (review_description review_options)))
     = Inr (Some (Str ''main''))
   \<and> map_sum id sourceBranch
     (ServiceNowClient_normalizeTicket
        (servicenow_record ''change_request'' ''Code Review'' ''6''
           (review_description review_options)))
     = Inr (Some (Str ''feat/x''))
   \<and> map_sum id targetBranch
     (ServiceNowClient_normalizeTicket
        (servicenow_record ''change_request'' ''Code Review'' ''6''
           (review_description review_options)))
     = Inr (Some (Str ''main''))
   \<and> map_sum id sourceBranch
     (JiraClient_normalizeTicket (jira_review_record ''Done'' ''Reviewed by hand''))
     = Inr (Some (Str ''unknown''))"
proof -
  let ?issue = "jira_review_record ''In Review'' (review_description review_options)"
  let ?change = "servicenow_record ''change_request'' ''Code Review'' ''6''
           (review_description review_options)"
  let ?t = "StandardPullRequest
       \<lparr>ticket_id = Str ''PRJ-7'', title = Str ''Add parser'',
        description = Str (review_description review_options),
        createdAt = Str ''2024-03-01T10:00:00.000+0000'',
        updatedAt = Str ''2024-03-02T10:00:00.000+0000'',
        status = Val (Str ''in review''),
        author = \<lparr>person_id = Str ''5b10'', person_name = Str ''Ada''\<rparr>, assignee = None\<rparr>
       (Str ''feat/x'') (Str ''main'') (Str ''open'')"
  let ?t' = "StandardPullRequest
       \<lparr>ticket_id = Str ''46d44a5dc0a8010e'', title = Str ''Add parser'',
        description = Str (review_description review_options),
        createdAt = Str ''2024-03-01 10:00:00'', updatedAt = Str ''2024-03-02 10:00:00'',
        status = Val (Str ''resolved''),
        author = \<lparr>person_id = Str ''ada'', person_name = Str ''ada''\<rparr>, assignee = None\<rparr>
       (Str ''feat/x'') (Str ''main'') (Str ''merged'')"
  have wf: "rr_sourceBranch review_options \<noteq> [] \<and> rr_targetBranch review_options \<noteq> [] \<and>
       (\<forall>c\<in>set (rr_sourceBranch review_options @ rr_targetBranch review_options).
          \<not> line_terminator c) \<and>
       \<not> sublist ''Source Branch: '' (rr_description review_options) \<and>
       \<not> sublist ''Target Branch: '' (rr_description review_options) \<and>
       \<not> sublist ''Target Branch: '' (rr_sourceBranch review_options)"
    by (simp add: review_options_def line_terminator_def flip: js_includes_sublist)
  have fields: "field (field (field ?issue ''fields'') ''issuetype'') ''name'' = Str ''Review''"
    "field (field ?issue ''fields'') ''description'' = Str (review_description review_options)"
    "field ?change ''sys_class_name'' = Str ''change_request''"
    "field ?change ''category'' = Str ''Code Review''"
    "field ?change ''description'' = Str (review_description review_options)"
    by (simp_all add: field_def jira_review_record_def servicenow_record_def)
  from review_branches_round_trip [where options = review_options and jira = jira_client_prj
      and w = start and tr = "answering Null" and servicenow = now_client and issue = ?issue
      and t = ?t and change = ?change and t' = ?t' and dv = Null and status_name = "''In Review''"
      and state_code = "''6''"]
    wf fields normalize_jira_example normalize_servicenow_example
  have "sourceBranch ?t = Some (Str (rr_sourceBranch review_options))"
    "targetBranch ?t = Some (Str (rr_targetBranch review_options))"
    "sourceBranch ?t' = Some (Str (rr_sourceBranch review_options))"
    "targetBranch ?t' = Some (Str (rr_targetBranch review_options))"
    by blast+
  then show ?thesis
    by (simp add: normalize_jira_example normalize_servicenow_example normalize_jira_plain)
qed


subsection \<open>The factory\<close>

lemma typed_config_object:
  "get_prop config ''type'' = Inr (Str tag) \<Longrightarrow> \<exists>ps. config = Obj ps"
  by (cases config) simp_all

lemma js_in_Obj_False:
  "js_in k (Obj ps) = Inr False \<longleftrightarrow> map_of ps k = None \<and> k \<notin> set object_prototype_members"
  by auto

lemma js_in_Obj_True:
  "js_in k (Obj ps) = Inr True \<longleftrightarrow> map_of ps k \<noteq> None \<or> k \<in> set object_prototype_members"
  by auto

lemma ServiceNowClient_new_Inl:
  "ServiceNowClient_new sdk config = Inl e \<Longrightarrow>
     e = TypeError \<or> (\<exists>options. sdk ''axios.create'' options = Inl e)"
  unfolding ServiceNowClient_new_def
  by (auto simp: bind_err_Inl_iff split: if_splits
      dest: get_prop_TypeError to_string_TypeError)

lemma ServiceNowClient_new_absent_auth:
  assumes "get_prop config ''type'' = Inr (Str tag)"
    and "field config ''auth'' = Undefined \<or> field config ''auth'' = Null"
  shows "ServiceNowClient_new sdk config = Inl TypeError"
proof (cases "ServiceNowClient_new sdk config")
  case (Inl e)
  from Inl assms have "e = TypeError"
    unfolding ServiceNowClient_new_def
    by (auto simp: bind_err_Inl_iff field_def split: if_splits
        dest: get_prop_TypeError to_string_TypeError)
  with Inl show ?thesis by simp
next
  case (Inr c)
  with assms show ?thesis
    unfolding ServiceNowClient_new_def
    by (auto simp: bind_err_Inr_iff field_def split: if_splits)
qed

lemma ServiceNowClient_new_Inr:
  assumes "ServiceNowClient_new sdk config = Inr c"
  shows "\<exists>instance_text token_text.
           to_string (field config ''instance'') = Inr instance_text \<and>
           field config ''auth'' \<noteq> Undefined \<and> field config ''auth'' \<noteq> Null \<and>
           (field (field config ''auth'') ''type'' = Str ''oauth'' \<longrightarrow>
              to_string (field (field config ''auth'') ''accessToken'') = Inr token_text) \<and>
           sn_config c =
             Obj [(''type'', field config ''type''),
                  (''baseUrl'', Str (''https://'' @ instance_text @ ''.service-now.com'')),
                  (''auth'', field config ''auth'')] \<and>
           sdk ''axios.create''
             (Fields ([(''baseURL'',
                         Text (''https://'' @ instance_text @ ''.service-now.com/api/now/v2''))] @
                      (if field (field config ''auth'') ''type'' = Str ''basic''
                       then [(''auth'',
                               Fields [(''username'',
                                          Value (field (field config ''auth'') ''username'')),
                                       (''password'',
                                          Value (field (field config ''auth'') ''password''))])]
                       else []) @
                      [(''headers'',
                          Fields ([(''Content-Type'', Text ''application/json''),
                                   (''Accept'', Text ''application/json'')] @
                                  (if field (field config ''auth'') ''type'' = Str ''oauth''
                                   then [(''Authorization'', Text (''Bearer '' @ token_text))]
                                   else [])))])) =
             Inr (sn_client c)"
  using assms unfolding ServiceNowClient_new_def
  by (auto simp: bind_err_Inr_iff field_def split: if_splits)

lemma createClient_gitlab:
  assumes "map_of ps ''type'' = Some (Str ''gitlab'')"
  shows "TicketClientFactory_createClient sdk (Obj ps) =
     (if map_of ps ''apiToken'' = None \<or> map_of ps ''projectId'' = None
      then Inl (Error ''Invalid GitLab configuration'')
      else case sdk ''Gitlab'' (Fields [(''token'', Value (field (Obj ps) ''apiToken'')),
                                        (''host'', Value (field (Obj ps) ''baseUrl''))]) of
             Inl thrown \<Rightarrow> Inl thrown
           | Inr made \<Rightarrow>
               Inr (GitLab \<lparr>gl_config = Obj ps, gl_client = made,
                            gl_projectId = field (Obj ps) ''projectId''\<rparr>))"
  using assms
  by (auto simp: TicketClientFactory_createClient_def bind_err_def field_def
      GitLabClient_new_def object_prototype_members_def split: sum.splits)

lemma createClient_jira:
  assumes "map_of ps ''type'' = Some (Str ''jira'')"
  shows "TicketClientFactory_createClient sdk (Obj ps) =
     (if map_of ps ''apiToken'' = None \<or> map_of ps ''email'' = None \<or>
         map_of ps ''projectKey'' = None
      then Inl (Error ''Invalid Jira configuration'')
      else case sdk ''Version3Client''
                  (Fields [(''host'', Value (field (Obj ps) ''baseUrl'')),
                           (''authentication'',
                              Fields [(''basic'',
                                 Fields [(''email'', Value (field (Obj ps) ''email'')),
                                         (''apiToken'', Value (field (Obj ps) ''apiToken''))])])]) of
             Inl thrown \<Rightarrow> Inl thrown
           | Inr made \<Rightarrow>
               Inr (Jira \<lparr>jira_config = Obj ps, jira_client = made,
                          jira_projectKey = field (Obj ps) ''projectKey''\<rparr>))"
  using assms
  by (auto simp: TicketClientFactory_createClient_def bind_err_def field_def
      JiraClient_new_def object_prototype_members_def split: sum.splits)

lemma createClient_github:
  assumes "map_of ps ''type'' = Some (Str ''github'')"
  shows "TicketClientFactory_createClient sdk (Obj ps) =
     (if field (Obj ps) ''auth'' = Undefined \<or> field (Obj ps) ''auth'' = Null
      then Inl TypeError
      else case sdk ''Octokit''
                  (Fields [(''auth'', Value (field (field (Obj ps) ''auth'') ''apiToken''))]) of
             Inl thrown \<Rightarrow> Inl thrown
           | Inr made \<Rightarrow>
               Inr (GitHub \<lparr>gh_config = Obj ps, gh_client = made,
                            gh_owner = field (Obj ps) ''owner'',
                            gh_repo = field (Obj ps) ''repo''\<rparr>))"
proof (cases "field (Obj ps) ''auth''")
qed (use assms in \<open>auto simp: TicketClientFactory_createClient_def bind_err_def field_def
      GitHubClient_new_def split: option.splits sum.splits\<close>)

lemma createClient_servicenow:
  assumes "map_of ps ''type'' = Some (Str ''servicenow'')"
  shows "TicketClientFactory_createClient sdk (Obj ps) =
           bind_err (ServiceNowClient_new sdk (Obj ps)) (\<lambda>c. Inr (ServiceNow c))"
  using assms by (simp add: TicketClientFactory_createClient_def bind_err_def)

lemma createClient_unknown:
  assumes "map_of ps ''type'' = Some (Str tag)"
    and "tag \<notin> {''github'', ''gitlab'', ''jira'', ''servicenow''}"
  shows "TicketClientFactory_createClient sdk (Obj ps) =
           Inl (Error (''Unknown platform type: '' @ tag))"
  using assms by (simp add: TicketClientFactory_createClient_def bind_err_def)

text \<open>
  A GitHub configuration without owner and repo, which its type requires, passes the
  factory: where the constructor of Octokit accepts the token, the adapter is returned
  with both undefined.
\<close>

theorem createClient_unchecked_github:
  "TicketClientFactory_createClient accepting_sdk github_config_without_repository =
     Inr (GitHub \<lparr>gh_config = github_config_without_repository,
                  gh_client = Fields [(''auth'', Value (Str ''secret''))],
                  gh_owner = Undefined, gh_repo = Undefined\<rparr>)
   \<and> js_in ''owner'' github_config_without_repository = Inr False
   \<and> js_in ''repo'' github_config_without_repository = Inr False"
  by (simp add: TicketClientFactory_createClient_def GitHubClient_new_def bind_err_def
      github_config_without_repository_def object_prototype_members_def accepting_sdk_def)

text \<open>
  C9, as amended. For a configuration whose type is the string tag, createClient fails
  with the error Invalid GitLab configuration when the tag is gitlab and the property
  apiToken or projectId is absent, with Invalid Jira configuration when the tag is jira
  and apiToken, email or projectKey is absent, and with Unknown platform type: followed
  by the tag when the tag is none of github, gitlab, jira and servicenow. It checks no
  other field. A gitlab or jira configuration that passes its guard is handed to the
  constructor of the adapter, which gives the connection fields, an absent one as
  undefined, to the constructor of the SDK's client: createClient fails with what that
  constructor throws and returns the adapter bound to the configuration and to the client
  otherwise. A github or servicenow configuration is not checked by the factory: without
  an auth object the constructor of the adapter throws a TypeError; otherwise github fails
  with what the constructor of Octokit throws on the token or yields its adapter, and
  servicenow fails with a TypeError or with what axios.create throws, or yields its
  adapter, bound to the client that axios.create made from the base URL, the basic
  credentials and the headers.
\<close>

theorem createClient_guards:
  assumes "get_prop config ''type'' = Inr (Str tag)"
  shows
   "(tag = ''gitlab'' \<and>
       (js_in ''apiToken'' config = Inr False \<or> js_in ''projectId'' config = Inr False) \<longrightarrow>
       TicketClientFactory_createClient sdk config =
         Inl (Error ''Invalid GitLab configuration''))
  \<and> (tag = ''jira'' \<and>
       (js_in ''apiToken'' config = Inr False \<or> js_in ''email'' config = Inr False \<or>
        js_in ''projectKey'' config = Inr False) \<longrightarrow>
       TicketClientFactory_createClient sdk config =
         Inl (Error ''Invalid Jira configuration''))
  \<and> (tag \<notin> {''github'', ''gitlab'', ''jira'', ''servicenow''} \<longrightarrow>
       TicketClientFactory_createClient sdk config =
         Inl (Error (''Unknown platform type: '' @ tag)))
  \<and> (tag = ''gitlab'' \<and> js_in ''apiToken'' config = Inr True \<and>
       js_in ''projectId'' config = Inr True \<longrightarrow>
       TicketClientFactory_createClient sdk config =
         (case sdk ''Gitlab'' (Fields [(''token'', Value (field config ''apiToken'')),
                                       (''host'', Value (field config ''baseUrl''))]) of
            Inl thrown \<Rightarrow> Inl thrown
          | Inr made \<Rightarrow>
              Inr (GitLab \<lparr>gl_config = config, gl_client = made,
                           gl_projectId = field config ''projectId''\<rparr>)))
  \<and> (tag = ''jira'' \<and> js_in ''apiToken'' config = Inr True \<and>
       js_in ''email'' config = Inr True \<and> js_in ''projectKey'' config = Inr True \<longrightarrow>
       TicketClientFactory_createClient sdk config =
         (case sdk ''Version3Client''
                 (Fields [(''host'', Value (field config ''baseUrl'')),
                          (''authentication'',
                             Fields [(''basic'',
                                Fields [(''email'', Value (field config ''email'')),
                                        (''apiToken'', Value (field config ''apiToken''))])])]) of
            Inl thrown \<Rightarrow> Inl thrown
          | Inr made \<Rightarrow>
              Inr (Jira \<lparr>jira_config = config, jira_client = made,
                         jira_projectKey = field config ''projectKey''\<rparr>)))
  \<and> (tag = ''github'' \<longrightarrow>
       TicketClientFactory_createClient sdk config =
         (if field config ''auth'' = Undefined \<or> field config ''auth'' = Null
          then Inl TypeError
          else case sdk ''Octokit''
                      (Fields [(''auth'', Value (field (field config ''auth'') ''apiToken''))]) of
                 Inl thrown \<Rightarrow> Inl thrown
               | Inr made \<Rightarrow>
                   Inr (GitHub \<lparr>gh_config = config, gh_client = made,
                                gh_owner = field config ''owner'',
                                gh_repo = field config ''repo''\<rparr>)))
  \<and> (tag = ''servicenow'' \<longrightarrow>
       (field config ''auth'' = Undefined \<or> field config ''auth'' = Null \<longrightarrow>
          TicketClientFactory_createClient sdk config = Inl TypeError) \<and>
       (TicketClientFactory_createClient sdk config = Inl e \<longrightarrow>
          e = TypeError \<or> (\<exists>options. sdk ''axios.create'' options = Inl e)) \<and>
       (TicketClientFactory_createClient sdk config = Inr c \<longrightarrow>
          (\<exists>sn instance_text token_text.
             c = ServiceNow sn \<and> to_string (field config ''instance'') = Inr instance_text \<and>
             field config ''auth'' \<noteq> Undefined \<and> field config ''auth'' \<noteq> Null \<and>
             (field (field config ''auth'') ''type'' = Str ''oauth'' \<longrightarrow>
                to_string (field (field config ''auth'') ''accessToken'') = Inr token_text) \<and>
             sn_config sn =
               Obj [(''type'', Str tag),
                    (''baseUrl'', Str (''https://'' @ instance_text @ ''.service-now.com'')),
                    (''auth'', field config ''auth'')] \<and>
             sdk ''axios.create''
               (Fields ([(''baseURL'',
                           Text (''https://'' @ instance_text @ ''.service-now.com/api/now/v2''))] @
                        (if field (field config ''auth'') ''type'' = Str ''basic''
                         then [(''auth'',
                                 Fields [(''username'',
                                            Value (field (field config ''auth'') ''username'')),
                                         (''password'',
                                            Value (field (field config ''auth'') ''password''))])]
                         else []) @
                        [(''headers'',
                            Fields ([(''Content-Type'', Text ''application/json''),
                                     (''Accept'', Text ''application/json'')] @
                                    (if field (field config ''auth'') ''type'' = Str ''oauth''
                                     then [(''Authorization'', Text (''Bearer '' @ token_text))]
                                     else [])))])) =
               Inr (sn_client sn))))"
proof -
  from assms obtain ps where ps: "config = Obj ps"
    using typed_config_object by blast
  with assms have tag: "map_of ps ''type'' = Some (Str tag)"
    by (auto split: option.splits)
  have f: "field config ''type'' = Str tag"
    using assms by (simp add: field_def)
  have sn1: "field config ''auth'' = Undefined \<or> field config ''auth'' = Null \<longrightarrow>
          TicketClientFactory_createClient sdk config = Inl TypeError"
    if "tag = ''servicenow''"
    using that tag ServiceNowClient_new_absent_auth [OF assms, of sdk]
    by (auto simp: ps createClient_servicenow bind_err_def)
  have sn2: "TicketClientFactory_createClient sdk config = Inl e \<longrightarrow>
          e = TypeError \<or> (\<exists>options. sdk ''axios.create'' options = Inl e)"
    if "tag = ''servicenow''"
  proof
    assume "TicketClientFactory_createClient sdk config = Inl e"
    with that tag have "ServiceNowClient_new sdk config = Inl e"
      by (cases "ServiceNowClient_new sdk (Obj ps)")
        (simp_all add: ps createClient_servicenow bind_err_def)
    then show "e = TypeError \<or> (\<exists>options. sdk ''axios.create'' options = Inl e)"
      by (rule ServiceNowClient_new_Inl)
  qed
  have sn3: "TicketClientFactory_createClient sdk config = Inr c \<longrightarrow>
          (\<exists>sn instance_text token_text.
             c = ServiceNow sn \<and> to_string (field config ''instance'') = Inr instance_text \<and>
             field config ''auth'' \<noteq> Undefined \<and> field config ''auth'' \<noteq> Null \<and>
             (field (field config ''auth'') ''type'' = Str ''oauth'' \<longrightarrow>
                to_string (field (field config ''auth'') ''accessToken'') = Inr token_text) \<and>
             sn_config sn =
               Obj [(''type'', Str tag),
                    (''baseUrl'', Str (''https://'' @ instance_text @ ''.service-now.com'')),
                    (''auth'', field config ''auth'')] \<and>
             sdk ''axios.create''
               (Fields ([(''baseURL'',
                           Text (''https://'' @ instance_text @ ''.service-now.com/api/now/v2''))] @
                        (if field (field config ''auth'') ''type'' = Str ''basic''
                         then [(''auth'',
                                 Fields [(''username'',
                                            Value (field (field config ''auth'') ''username'')),
                                         (''password'',
                                            Value (field (field config ''auth'') ''password''))])]
                         else []) @
                        [(''headers'',
                            Fields ([(''Content-Type'', Text ''application/json''),
                                     (''Accept'', Text ''application/json'')] @
                                    (if field (field config ''auth'') ''type'' = Str ''oauth''
                                     then [(''Authorization'', Text (''Bearer '' @ token_text))]
                                     else [])))])) =
               Inr (sn_client sn))"
    if "tag = ''servicenow''"
  proof
    assume "TicketClientFactory_createClient sdk config = Inr c"
    with that tag obtain sn where sn: "ServiceNowClient_new sdk config = Inr sn"
      and c: "c = ServiceNow sn"
      by (cases "ServiceNowClient_new sdk (Obj ps)")
        (auto simp: ps createClient_servicenow bind_err_def)
    from ServiceNowClient_new_Inr [OF sn] c f
    show "\<exists>sn instance_text token_text.
             c = ServiceNow sn \<and> to_string (field config ''instance'') = Inr instance_text \<and>
             field config ''auth'' \<noteq> Undefined \<and> field config ''auth'' \<noteq> Null \<and>
             (field (field config ''auth'') ''type'' = Str ''oauth'' \<longrightarrow>
                to_string (field (field config ''auth'') ''accessToken'') = Inr token_text) \<and>
             sn_config sn =
               Obj [(''type'', Str tag),
                    (''baseUrl'', Str (''https://'' @ instance_text @ ''.service-now.com'')),
                    (''auth'', field config ''auth'')] \<and>
             sdk ''axios.create''
               (Fields ([(''baseURL'',
                           Text (''https://'' @ instance_text @ ''.service-now.com/api/now/v2''))] @
                        (if field (field config ''auth'') ''type'' = Str ''basic''
                         then [(''auth'',
                                 Fields [(''username'',
                                            Value (field (field config ''auth'') ''username'')),
                                         (''password'',
                                            Value (field (field config ''auth'') ''password''))])]
                         else []) @
                        [(''headers'',
                            Fields ([(''Content-Type'', Text ''application/json''),
                                     (''Accept'', Text ''application/json'')] @
                                    (if field (field config ''auth'') ''type'' = Str ''oauth''
                                     then [(''Authorization'', Text (''Bearer '' @ token_text))]
                                     else [])))])) =
               Inr (sn_client sn)"
      by (simp only:) blast
  qed
  have gl: "tag = ''gitlab'' \<and>
       (js_in ''apiToken'' config = Inr False \<or> js_in ''projectId'' config = Inr False) \<longrightarrow>
       TicketClientFactory_createClient sdk config =
         Inl (Error ''Invalid GitLab configuration'')"
    using tag
    by (auto simp: ps createClient_gitlab js_in_Obj_False simp del: js_in.simps)
  have ji: "tag = ''jira'' \<and>
       (js_in ''apiToken'' config = Inr False \<or> js_in ''email'' config = Inr False \<or>
        js_in ''projectKey'' config = Inr False) \<longrightarrow>
       TicketClientFactory_createClient sdk config =
         Inl (Error ''Invalid Jira configuration'')"
    using tag
    by (auto simp: ps createClient_jira js_in_Obj_False simp del: js_in.simps)
  have un: "tag \<notin> {''github'', ''gitlab'', ''jira'', ''servicenow''} \<longrightarrow>
       TicketClientFactory_createClient sdk config =
         Inl (Error (''Unknown platform type: '' @ tag))"
    using tag createClient_unknown [of ps tag sdk] by (simp add: ps)
  have gl_ok: "tag = ''gitlab'' \<and> js_in ''apiToken'' config = Inr True \<and>
       js_in ''projectId'' config = Inr True \<longrightarrow>
       TicketClientFactory_createClient sdk config =
         (case sdk ''Gitlab'' (Fields [(''token'', Value (field config ''apiToken'')),
                                       (''host'', Value (field config ''baseUrl''))]) of
            Inl thrown \<Rightarrow> Inl thrown
          | Inr made \<Rightarrow>
              Inr (GitLab \<lparr>gl_config = config, gl_client = made,
                           gl_projectId = field config ''projectId''\<rparr>))"
    using tag unfolding ps
    by (auto simp: createClient_gitlab js_in_Obj_True object_prototype_members_def
        simp del: js_in.simps)
  have ji_ok: "tag = ''jira'' \<and> js_in ''apiToken'' config = Inr True \<and>
       js_in ''email'' config = Inr True \<and> js_in ''projectKey'' config = Inr True \<longrightarrow>
       TicketClientFactory_createClient sdk config =
         (case sdk ''Version3Client''
                 (Fields [(''host'', Value (field config ''baseUrl'')),
                          (''authentication'',
                             Fields [(''basic'',
                                Fields [(''email'', Value (field config ''email'')),
                                        (''apiToken'', Value (field config ''apiToken''))])])]) of
            Inl thrown \<Rightarrow> Inl thrown
          | Inr made \<Rightarrow>
              Inr (Jira \<lparr>jira_config = config, jira_client = made,
                         jira_projectKey = field config ''projectKey''\<rparr>))"
    using tag unfolding ps
    by (auto simp: createClient_jira js_in_Obj_True object_prototype_members_def
        simp del: js_in.simps)
  have gh: "tag = ''github'' \<longrightarrow>
       TicketClientFactory_createClient sdk config =
         (if field config ''auth'' = Undefined \<or> field config ''auth'' = Null
          then Inl TypeError
          else case sdk ''Octokit''
                      (Fields [(''auth'', Value (field (field config ''auth'') ''apiToken''))]) of
                 Inl thrown \<Rightarrow> Inl thrown
               | Inr made \<Rightarrow>
                   Inr (GitHub \<lparr>gh_config = config, gh_client = made,
                                gh_owner = field config ''owner'',
                                gh_repo = field config ''repo''\<rparr>))"
    using tag createClient_github [of ps sdk] unfolding ps by simp
  show ?thesis
    apply (intro conjI)
          apply (rule gl)
         apply (rule ji)
        apply (rule un)
       apply (rule gl_ok)
      apply (rule ji_ok)
     apply (rule gh)
    apply (rule impI)
    apply (intro conjI)
      apply (rule sn1, assumption)
     apply (rule sn2, assumption)
    apply (rule sn3, assumption)
    done
qed

theorem createClient_guards_witness:
  "TicketClientFactory_createClient accepting_sdk gitlab_config_without_project =
     Inl (Error ''Invalid GitLab configuration'')
   \<and> TicketClientFactory_createClient accepting_sdk bitbucket_config =
     Inl (Error ''Unknown platform type: bitbucket'')
   \<and> TicketClientFactory_createClient strict_sdk jira_config_without_host =
     Inl (Error ''host is required'')"
proof -
  have t1: "get_prop gitlab_config_without_project ''type'' = Inr (Str ''gitlab'')"
    and m: "js_in ''projectId'' gitlab_config_without_project = Inr False"
    and t2: "get_prop bitbucket_config ''type'' = Inr (Str ''bitbucket'')"
    and t3: "get_prop jira_config_without_host ''type'' = Inr (Str ''jira'')"
    and j: "js_in ''apiToken'' jira_config_without_host = Inr True"
      "js_in ''email'' jira_config_without_host = Inr True"
      "js_in ''projectKey'' jira_config_without_host = Inr True"
    and h: "field jira_config_without_host ''baseUrl'' = Undefined"
    by (simp_all add: gitlab_config_without_project_def bitbucket_config_def
        jira_config_without_host_def object_prototype_members_def field_def)
  from createClient_guards [OF t1, of accepting_sdk TypeError "GitHub octo_client"] m
    createClient_guards [OF t2, of accepting_sdk TypeError "GitHub octo_client"]
    createClient_guards [OF t3, of strict_sdk TypeError "GitHub octo_client"] j h
  show ?thesis by (simp add: strict_sdk_def)
qed

end
